theory Spec2Isabelle
  imports Main "HOL-Library.AList"
begin

section \<open>Data model (src/core/SessionManager.js)\<close>

text \<open>
  Session ids and user ids are JavaScript strings. \<^verbatim>\<open>Date.now()\<close> is an integer number
  of milliseconds and is passed to every function that reads the clock.
\<close>

type_synonym sid = string
type_synonym uid = string
type_synonym time = int

text \<open>
  An engine handle is the object built by \<^verbatim>\<open>new Client(...)\<close> in core/WhatsAppClient.js:
  the primary one has LocalAuth clientId \<^verbatim>\<open>sessionId\<close>, the fallback one
  \<^verbatim>\<open>fallback_${sessionId}\<close>.
\<close>

datatype engine_kind = Primary | Fallback

datatype client = Client engine_kind sid

text \<open>The session object literal of \<^verbatim>\<open>getOrCreateSession\<close>; \<^verbatim>\<open>null\<close> is \<open>None\<close>.\<close>

record session =
  client :: "client option"
  isReady :: bool
  isAuthenticated :: bool
  qrCode :: "string option"
  userId :: uid
  deviceInfo :: string
  lastActivity :: time
  phoneNumber :: "string option"
  reconnecting :: bool

text \<open>
  A JavaScript \<^verbatim>\<open>Map\<close> keeps its entries in insertion order: it is an association list,
  \<^verbatim>\<open>get\<close> is \<open>map_of\<close>, \<^verbatim>\<open>set\<close> is \<open>AList.update\<close> (an existing key keeps its
  place), \<^verbatim>\<open>delete\<close> is \<open>AList.delete\<close>. \<open>io\<close> tells whether the Socket.IO instance
  is set (\<^verbatim>\<open>this.io\<close> is not null).
\<close>

record manager =
  sessions :: "(sid \<times> session) list"
  userSessions :: "(uid \<times> sid) list"
  sessionTimeout :: int
  unfinishedSessionTimeout :: int
  io :: bool

text \<open>config/constants.js\<close>

definition SESSION_TIMEOUT :: int where
  "SESSION_TIMEOUT = 24 * 60 * 60 * 1000"

definition UNFINISHED_SESSION_TIMEOUT :: int where
  "UNFINISHED_SESSION_TIMEOUT = 15 * 60 * 1000"

definition AUDIO_CONVERSION_TTL :: int where
  "AUDIO_CONVERSION_TTL = 2 * 60 * 60 * 1000"

text \<open>The constructor, followed by \<^verbatim>\<open>setIO\<close> as the server does.\<close>

definition new_manager :: "bool \<Rightarrow> manager" where
  "new_manager i =
     \<lparr>sessions = [], userSessions = [], sessionTimeout = SESSION_TIMEOUT,
      unfinishedSessionTimeout = UNFINISHED_SESSION_TIMEOUT, io = i\<rparr>"

text \<open>
  What the code does to the outside world, in the order it does it: console output,
  notifications to the room \<^verbatim>\<open>session_<id>\<close>, calls of the engine, of the file system and
  of FFmpeg. A log line is its fixed text, shortened, without the values it interpolates;
  a notification is its room and its event name, without the payload.
\<close>

datatype effect =
    Log string
  | LogError string
  | Emit sid string
  | ClientNew client
  | ClientDestroy client
  | ClientInitialize client
  | FsRm sid
  | FsMkdir string
  | FsReaddir string
  | FsWriteFile string
  | FsReadFile string
  | FsUnlink string
  | FfmpegRun string string
  | FfmpegKill

text \<open>
  How an awaited call of a collaborator settles: it resolves or it rejects. The
  collaborators are library code (Node's \<^verbatim>\<open>fs\<close>, the engine, \<^verbatim>\<open>qrcode\<close>, FFmpeg): what they
  reject with is an Error object, whose \<^verbatim>\<open>message\<close> the \<^verbatim>\<open>catch\<close> blocks read.
\<close>

datatype outcome = Resolves | Rejects

section \<open>destroySession\<close>

text \<open>
  \<^verbatim>\<open>destroySession\<close> is an async function. It runs until its first \<^verbatim>\<open>await\<close>, is parked
  there, and goes on when the awaited call settles; other code runs in between. A parked
  call is a value of \<open>suspended\<close>: it waits for \<^verbatim>\<open>session.client.destroy()\<close> (holding the
  session object it read) or for \<^verbatim>\<open>fs.rm\<close>.
\<close>

datatype suspended = AwaitTeardown sid session | AwaitRm sid

text \<open>Lines 274-275 and the start of \<^verbatim>\<open>fs.rm\<close> (line 280).\<close>

definition destroySession_remove :: "manager \<Rightarrow> sid \<Rightarrow> session \<Rightarrow> manager" where
  "destroySession_remove m sessionId s =
     m\<lparr>sessions := AList.delete sessionId (sessions m),
       userSessions := AList.delete (userId s) (userSessions m)\<rparr>"

text \<open>From the call to the first \<^verbatim>\<open>await\<close>.\<close>

definition destroySession_begin ::
  "manager \<Rightarrow> sid \<Rightarrow> manager \<times> effect list \<times> suspended option" where
  "destroySession_begin m sessionId =
     (case map_of (sessions m) sessionId of
        None \<Rightarrow> (m, [], None)
      | Some s \<Rightarrow>
          (case client s of
             Some c \<Rightarrow> (m, [ClientDestroy c], Some (AwaitTeardown sessionId s))
           | None \<Rightarrow> (destroySession_remove m sessionId s, [FsRm sessionId],
                      Some (AwaitRm sessionId))))"

text \<open>
  From one \<^verbatim>\<open>await\<close> to the next. A rejected \<^verbatim>\<open>client.destroy()\<close> is caught by the outer
  \<^verbatim>\<open>catch\<close> (line 290), which only logs; a rejected \<^verbatim>\<open>fs.rm\<close> is caught by the inner one
  (line 282), after which the notification is still sent.
\<close>

fun destroySession_resume ::
  "manager \<Rightarrow> suspended \<Rightarrow> outcome \<Rightarrow> manager \<times> effect list \<times> suspended option" where
  "destroySession_resume m (AwaitTeardown sessionId s) Rejects =
     (m, [LogError ''Error destroying session''], None)"
| "destroySession_resume m (AwaitTeardown sessionId s) Resolves =
     (destroySession_remove m sessionId s, [FsRm sessionId], Some (AwaitRm sessionId))"
| "destroySession_resume m (AwaitRm sessionId) r =
     (m,
      [Log (case r of Resolves \<Rightarrow> ''Deleted session data folder''
                    | Rejects \<Rightarrow> ''Could not delete session folder'')]
      @ (if io m then [Emit sessionId ''session_destroyed''] else []),
      None)"

text \<open>
  An awaited call of \<^verbatim>\<open>destroySession\<close> with nothing running in between, as in the logout
  route: \<open>teardown\<close> and \<open>rm\<close> say how \<^verbatim>\<open>client.destroy()\<close> and \<^verbatim>\<open>fs.rm\<close> settle.
  The promise it returns always resolves: every rejection is caught inside.
\<close>

fun destroySession_run ::
  "outcome \<Rightarrow> outcome \<Rightarrow> manager \<times> effect list \<times> suspended option \<Rightarrow> manager \<times> effect list" where
  "destroySession_run teardown rm (m, es, None) = (m, es)"
| "destroySession_run teardown rm (m, es, Some (AwaitTeardown i s)) =
     (case destroySession_resume m (AwaitTeardown i s) teardown of
        (m', es', None) \<Rightarrow> (m', es @ es')
      | (m', es', Some p) \<Rightarrow>
          (case destroySession_resume m' p rm of (m'', es'', _) \<Rightarrow> (m'', es @ es' @ es'')))"
| "destroySession_run teardown rm (m, es, Some (AwaitRm i)) =
     (case destroySession_resume m (AwaitRm i) rm of (m', es', _) \<Rightarrow> (m', es @ es'))"

definition destroySession :: "manager \<Rightarrow> sid \<Rightarrow> outcome \<Rightarrow> outcome \<Rightarrow> manager \<times> effect list" where
  "destroySession m sessionId teardown rm =
     destroySession_run teardown rm (destroySession_begin m sessionId)"

section \<open>getOrCreateSession\<close>

text \<open>The object literal of lines 321-331.\<close>

definition new_session :: "uid \<Rightarrow> string \<Rightarrow> time \<Rightarrow> session" where
  "new_session u d now =
     \<lparr>client = None, isReady = False, isAuthenticated = False, qrCode = None,
      userId = u, deviceInfo = d, lastActivity = now, phoneNumber = None,
      reconnecting = False\<rparr>"

text \<open>
  \<^verbatim>\<open>generateSessionId\<close> is \<^verbatim>\<open>uuidv4()\<close> of the uuid package: the id it yields is the
  argument \<open>newId\<close>. The call of \<^verbatim>\<open>destroySession\<close> on the old session is not awaited: it
  runs to its first \<^verbatim>\<open>await\<close> and the parked rest is returned as the last component.
  \<^verbatim>\<open>existingSessionId && ...\<close> is false for \<^verbatim>\<open>undefined\<close> and for the empty string.
\<close>

definition getOrCreateSession ::
  "manager \<Rightarrow> uid \<Rightarrow> string \<Rightarrow> time \<Rightarrow> sid \<Rightarrow> manager \<times> sid \<times> effect list \<times> suspended option" where
  "getOrCreateSession m u d now newId =
     (let (m1, es1, p) =
            (case map_of (userSessions m) u of
               None \<Rightarrow> (m, [], None)
             | Some existingSessionId \<Rightarrow>
                 if existingSessionId \<noteq> [] \<and> map_of (sessions m) existingSessionId \<noteq> None
                 then (case destroySession_begin m existingSessionId of
                         (m', es, p) \<Rightarrow>
                           (m'\<lparr>userSessions := AList.delete u (userSessions m')\<rparr>,
                            Log ''cleaning up existing session'' # es, p))
                 else (m, [], None));
          m2 = m1\<lparr>sessions := AList.update newId (new_session u d now) (sessions m1),
                  userSessions := AList.update u newId (userSessions m1)\<rparr>
      in (m2, newId, es1 @ [Log ''Created new session''], p))"

section \<open>The sweeps\<close>

text \<open>
  \<^verbatim>\<open>cleanupUnfinishedSessions\<close> walks \<^verbatim>\<open>this.sessions.entries()\<close>. The calls of
  \<^verbatim>\<open>destroySession\<close> are not awaited: each runs to its first \<^verbatim>\<open>await\<close> inside the loop and
  is left parked. Such a call deletes at most the entry being visited, so walking the
  entries present at the start visits what the live iterator visits. The result is the
  manager, the effects, the parked calls and \<^verbatim>\<open>cleanedCount\<close>.
\<close>

fun cleanupUnfinished_loop ::
  "time \<Rightarrow> (sid \<times> session) list \<Rightarrow> manager \<Rightarrow> manager \<times> effect list \<times> suspended list \<times> nat" where
  "cleanupUnfinished_loop now [] m = (m, [], [], 0)"
| "cleanupUnfinished_loop now ((sessionId, s) # rest) m =
     (if \<not> isReady s \<and> \<not> isAuthenticated s \<and> now - lastActivity s > unfinishedSessionTimeout m
      then
        (case destroySession_begin m sessionId of
           (m1, es1, p) \<Rightarrow>
             (case cleanupUnfinished_loop now rest m1 of
                (m2, es2, ps, n) \<Rightarrow>
                  (m2, Log ''Cleaning up unfinished session'' # es1 @ es2,
                   (case p of None \<Rightarrow> ps | Some q \<Rightarrow> q # ps), Suc n)))
      else cleanupUnfinished_loop now rest m)"

definition cleanupUnfinishedSessions ::
  "manager \<Rightarrow> time \<Rightarrow> manager \<times> effect list \<times> suspended list" where
  "cleanupUnfinishedSessions m now =
     (case cleanupUnfinished_loop now (sessions m) m of
        (m', es, ps, cleanedCount) \<Rightarrow>
          (m', es @ (if cleanedCount > 0 then [Log ''Cleaned up unfinished session(s)''] else []),
           ps))"

fun cleanupInactive_loop ::
  "time \<Rightarrow> (sid \<times> session) list \<Rightarrow> manager \<Rightarrow> manager \<times> effect list \<times> suspended list" where
  "cleanupInactive_loop now [] m = (m, [], [])"
| "cleanupInactive_loop now ((sessionId, s) # rest) m =
     (if now - lastActivity s > sessionTimeout m
      then
        (case destroySession_begin m sessionId of
           (m1, es1, p) \<Rightarrow>
             (case cleanupInactive_loop now rest m1 of
                (m2, es2, ps) \<Rightarrow>
                  (m2, Log ''Cleaning up inactive session'' # es1 @ es2,
                   (case p of None \<Rightarrow> ps | Some q \<Rightarrow> q # ps))))
      else cleanupInactive_loop now rest m)"

definition cleanupInactiveSessions ::
  "manager \<Rightarrow> time \<Rightarrow> manager \<times> effect list \<times> suspended list" where
  "cleanupInactiveSessions m now = cleanupInactive_loop now (sessions m) m"

section \<open>The engine's events (core/WhatsAppClient.js)\<close>

text \<open>
  The events of the engine that a listener of \<^verbatim>\<open>initializeClient\<close> or
  \<^verbatim>\<open>initializeClientFallback\<close> turns into a change of the session object. \<open>Qr\<close>
  carries how \<^verbatim>\<open>qrcode.toDataURL\<close> settles and the data URL; \<open>Ready\<close> carries
  \<^verbatim>\<open>client.info.wid.user\<close>, or \<open>None\<close> when reading it throws. The message listeners only
  relay to the room and are left out.
\<close>

datatype engine_event =
    Qr outcome string
  | Ready "string option"
  | Authenticated
  | LoadingScreen
  | AuthFailure
  | Disconnected string
  | EngineError

text \<open>
  The listeners registered by \<^verbatim>\<open>initializeClient\<close>. \<open>startTime\<close> is the
  \<^verbatim>\<open>const startTime = Date.now()\<close> taken when \<^verbatim>\<open>initializeClient\<close> was called, \<open>now\<close> the
  clock when the event arrives. In the \<^verbatim>\<open>disconnected\<close> listener \<^verbatim>\<open>timeSinceReady\<close> is
  \<^verbatim>\<open>Date.now() - startTime\<close> when the session is ready and \<^verbatim>\<open>'N/A'\<close> otherwise.
\<close>

definition timeSinceReady :: "time \<Rightarrow> time \<Rightarrow> session \<Rightarrow> int option" where
  "timeSinceReady startTime now s = (if isReady s then Some (now - startTime) else None)"

definition anti_bot_log :: effect where
  "anti_bot_log = Log ''[WA Anti-Bot] possible anti-bot detection''"

fun primary_listener ::
  "sid \<Rightarrow> time \<Rightarrow> time \<Rightarrow> engine_event \<Rightarrow> session \<Rightarrow> session \<times> effect list" where
  "primary_listener i startTime now (Qr Resolves url) s =
     (s\<lparr>qrCode := Some url\<rparr>, [Log ''QR generated'', Emit i ''qr'', Log ''QR code emitted''])"
| "primary_listener i startTime now (Qr Rejects url) s =
     (s, [Log ''QR generation failed'', Emit i ''auth_failure''])"
| "primary_listener i startTime now (Ready info) s =
     (if isReady s then (s, [Log ''Ready event fired but session already ready''])
      else
        (case info of
           Some user \<Rightarrow>
             (s\<lparr>isReady := True, qrCode := None, phoneNumber := Some user\<rparr>,
              [Log ''Client is ready'', Emit i ''ready''])
         | None \<Rightarrow>
             (s\<lparr>isReady := True, qrCode := None\<rparr>, [Log ''Client is ready'', Emit i ''ready''])))"
| "primary_listener i startTime now Authenticated s =
     (if isAuthenticated s
      then (s, [Log ''Authenticated event fired but session already authenticated''])
      else (s\<lparr>isAuthenticated := True, lastActivity := now\<rparr>,
            [Log ''Authenticated'', Emit i ''authenticated'']))"
| "primary_listener i startTime now LoadingScreen s =
     (s\<lparr>lastActivity := now\<rparr>, [Log ''Loading WhatsApp'', Emit i ''loading_screen''])"
| "primary_listener i startTime now AuthFailure s =
     (s\<lparr>isAuthenticated := False\<rparr>, [Log ''Auth failure'', Emit i ''auth_failure''])"
| "primary_listener i startTime now (Disconnected reason) s =
     (s\<lparr>isReady := False\<rparr>,
      [Log ''Disconnected'', Log ''Session disconnected'', Log ''Session state'',
       Emit i ''disconnected'']
      @ (case timeSinceReady startTime now s of
           None \<Rightarrow> []
         | Some t \<Rightarrow> if reason = ''LOGOUT'' \<and> t < 120000 then [anti_bot_log] else []))"
| "primary_listener i startTime now EngineError s =
     (s, [Log ''Client error'', Emit i ''auth_failure''])"

text \<open>
  The listeners registered by \<^verbatim>\<open>initializeClientFallback\<close>: it registers none for
  \<^verbatim>\<open>authenticated\<close>, \<^verbatim>\<open>loading_screen\<close>, \<^verbatim>\<open>disconnected\<close> and \<^verbatim>\<open>error\<close>.
\<close>

fun fallback_listener :: "sid \<Rightarrow> engine_event \<Rightarrow> session \<Rightarrow> session \<times> effect list" where
  "fallback_listener i (Qr Resolves url) s = (s\<lparr>qrCode := Some url\<rparr>, [Emit i ''qr''])"
| "fallback_listener i (Qr Rejects url) s = (s, [LogError ''[FALLBACK] QR generation failed''])"
| "fallback_listener i (Ready info) s = (s\<lparr>isReady := True\<rparr>, [Emit i ''ready''])"
| "fallback_listener i AuthFailure s = (s, [Log ''[FALLBACK] Auth failure'', Emit i ''auth_failure''])"
| "fallback_listener i Authenticated s = (s, [])"
| "fallback_listener i LoadingScreen s = (s, [])"
| "fallback_listener i (Disconnected reason) s = (s, [])"
| "fallback_listener i EngineError s = (s, [])"

section \<open>initializeClient and initializeClientFallback\<close>

text \<open>
  How the start of an engine goes: \<^verbatim>\<open>fs.mkdir\<close> rejects; or the client is created and
  \<^verbatim>\<open>client.initialize()\<close> loses the race against the timeout or rejects; or it resolves.
\<close>

datatype init_result = MkdirFails | InitializeFails | InitializeOk

text \<open>
  The session directory is \<^verbatim>\<open>path.join(__dirname, 'data', sessionId)\<close>, written here
  relative to the server's directory; the fallback uses \<^verbatim>\<open>fallback_<id>\<close>.
\<close>

definition sessionDir :: "sid \<Rightarrow> string" where
  "sessionDir i = ''data/'' @ i"

definition fallbackSessionDir :: "sid \<Rightarrow> string" where
  "fallbackSessionDir i = ''data/fallback_'' @ i"

text \<open>Lines 27-48, once \<^verbatim>\<open>fs.mkdir\<close> has resolved.\<close>

definition initializeClient_prepare :: "sid \<Rightarrow> effect list" where
  "initializeClient_prepare i =
     [Log ''Starting WhatsApp client initialization'', FsMkdir (sessionDir i),
      Log ''Session directory'', FsReaddir (sessionDir i), Log ''auth data of the session directory'',
      Log ''Using Puppeteer with stealth plugin'']"

text \<open>
  Lines 51-227: the client is created, the listeners are registered,
  \<^verbatim>\<open>session.client = client\<close>, and \<^verbatim>\<open>client.initialize()\<close> is called.
\<close>

definition initializeClient_attach :: "sid \<Rightarrow> session \<Rightarrow> session \<times> effect list" where
  "initializeClient_attach i s =
     (s\<lparr>client := Some (Client Primary i)\<rparr>,
      [ClientNew (Client Primary i), Log ''Client created with minimal config'',
       Log ''Initializing client with 45s timeout'', ClientInitialize (Client Primary i)])"

text \<open>The \<^verbatim>\<open>catch\<close> of lines 236-253, which ends in \<^verbatim>\<open>throw error\<close>.\<close>

definition initializeClient_failed :: "sid \<Rightarrow> session \<Rightarrow> session \<times> effect list" where
  "initializeClient_failed i s =
     (s\<lparr>client := None, qrCode := None\<rparr>,
      Log ''Initialization failed''
      # (case client s of Some c \<Rightarrow> [ClientDestroy c] | None \<Rightarrow> [])
      @ [Emit i ''auth_failure''])"

definition initializeClient :: "sid \<Rightarrow> init_result \<Rightarrow> session \<Rightarrow> session \<times> effect list \<times> outcome" where
  "initializeClient i r s =
     (case r of
        MkdirFails \<Rightarrow>
          (s, [Log ''Starting WhatsApp client initialization'', FsMkdir (sessionDir i)], Rejects)
      | InitializeOk \<Rightarrow>
          (case initializeClient_attach i s of
             (s1, es1) \<Rightarrow>
               (s1, initializeClient_prepare i @ es1 @ [Log ''Initialization completed successfully''],
                Resolves))
      | InitializeFails \<Rightarrow>
          (case initializeClient_attach i s of
             (s1, es1) \<Rightarrow>
               (case initializeClient_failed i s1 of
                  (s2, es2) \<Rightarrow> (s2, initializeClient_prepare i @ es1 @ es2, Rejects))))"

text \<open>Lines 286-385 of the fallback, once \<^verbatim>\<open>fs.mkdir\<close> has resolved.\<close>

definition initializeClientFallback_attach :: "sid \<Rightarrow> session \<Rightarrow> session \<times> effect list" where
  "initializeClientFallback_attach i s =
     (s\<lparr>client := Some (Client Fallback i)\<rparr>,
      [Log ''[FALLBACK] Using Puppeteer with stealth plugin'', ClientNew (Client Fallback i),
       Log ''[FALLBACK] Initializing with 20s timeout'', ClientInitialize (Client Fallback i)])"

text \<open>The fallback has no \<^verbatim>\<open>catch\<close> around \<^verbatim>\<open>Promise.race\<close>: a failure leaves the record as it is.\<close>

definition initializeClientFallback ::
  "sid \<Rightarrow> init_result \<Rightarrow> session \<Rightarrow> session \<times> effect list \<times> outcome" where
  "initializeClientFallback i r s =
     (let es0 = [Log ''[FALLBACK] Starting minimal WhatsApp client'', FsMkdir (fallbackSessionDir i)]
      in case r of
           MkdirFails \<Rightarrow> (s, es0 @ [Log ''[FALLBACK] Directory creation failed''], Rejects)
         | InitializeOk \<Rightarrow>
             (case initializeClientFallback_attach i s of
                (s1, es1) \<Rightarrow>
                  (s1, es0 @ [Log ''[FALLBACK] Created session directory''] @ es1
                       @ [Log ''[FALLBACK] Initialization completed''], Resolves))
         | InitializeFails \<Rightarrow>
             (case initializeClientFallback_attach i s of
                (s1, es1) \<Rightarrow>
                  (s1, es0 @ [Log ''[FALLBACK] Created session directory''] @ es1, Rejects)))"

section \<open>The start route (routes/auth.routes.js)\<close>

datatype response = Response nat string

text \<open>\<^verbatim>\<open>a || b\<close> on strings that may be missing: the empty string is falsy.\<close>

definition js_or :: "string option \<Rightarrow> string option \<Rightarrow> string option" where
  "js_or a b = (case a of None \<Rightarrow> b | Some x \<Rightarrow> if x = [] then b else Some x)"

text \<open>
  \<^verbatim>\<open>startSessionHandler\<close>, run with nothing in between. \<open>param\<close> and \<open>body\<close> are
  \<^verbatim>\<open>req.params.sessionId\<close> and \<^verbatim>\<open>req.body.sessionId\<close>; \<open>r1\<close> and \<open>r2\<close> say how the primary
  and the fallback start go. \<^verbatim>\<open>sessionManager.initializeClient\<close> is the server's wrapper,
  which passes the session object of the id to \<^verbatim>\<open>initializeClient\<close>.
\<close>

definition startSessionHandler ::
  "manager \<Rightarrow> string option \<Rightarrow> string option \<Rightarrow> init_result \<Rightarrow> init_result
     \<Rightarrow> manager \<times> response \<times> effect list" where
  "startSessionHandler m param body r1 r2 =
     (case js_or param body of
        None \<Rightarrow> (m, Response 400 ''Session ID required'', [])
      | Some sessionId \<Rightarrow>
          if sessionId = [] then (m, Response 400 ''Session ID required'', [])
          else
            (case map_of (sessions m) sessionId of
               None \<Rightarrow> (m, Response 404 ''Session not found'', [Log ''[START-SESSION] Session not found''])
             | Some s \<Rightarrow>
                 if map_of (userSessions m) (userId s) \<noteq> Some sessionId
                 then (m, Response 410 ''This session has been replaced by a newer session'',
                       [Log ''[START-SESSION] Ignoring start-session for old session''])
                 else if client s \<noteq> None
                 then (m, Response 200 ''Session already started'', [Log ''already has a client''])
                 else
                   (case initializeClient sessionId r1 s of
                      (s1, es1, Resolves) \<Rightarrow>
                        (m\<lparr>sessions := AList.update sessionId s1 (sessions m)\<rparr>,
                         Response 200 ''Session initialization started'', es1)
                    | (s1, es1, Rejects) \<Rightarrow>
                        (case initializeClientFallback sessionId r2 s1 of
                           (s2, es2, Resolves) \<Rightarrow>
                             (m\<lparr>sessions := AList.update sessionId s2 (sessions m)\<rparr>,
                              Response 200 ''Session initialization started (fallback method)'',
                              es1 @ es2)
                         | (s2, es2, Rejects) \<Rightarrow>
                             (m\<lparr>sessions := AList.update sessionId s2 (sessions m)\<rparr>,
                              Response 500 ''Failed to start session'', es1 @ es2)))))"

section \<open>reconnectSession\<close>

text \<open>
  The two optional callbacks \<^verbatim>\<open>initializeClient\<close> and \<^verbatim>\<open>initializeClientFallback\<close> are
  functions that work on the session object, as the two start routines above do: a
  callback returns the object as it leaves it, what it did, and how it settled. A
  callback that rejects does so with a value: one whose \<^verbatim>\<open>message\<close> can be read
  (\<open>ErrorObject\<close>; the start routines of the repository throw Error objects only), or
  \<^verbatim>\<open>null\<close> or \<^verbatim>\<open>undefined\<close> (\<open>Nullish\<close>), on which reading \<^verbatim>\<open>.message\<close> throws a
  TypeError.
\<close>

datatype thrown = ErrorObject | Nullish

datatype start_outcome = Started | Failed thrown

type_synonym starter = "session \<Rightarrow> session \<times> effect list \<times> start_outcome"

text \<open>A start routine of the repository, as a callback.\<close>

definition repo_starter :: "(session \<Rightarrow> session \<times> effect list \<times> outcome) \<Rightarrow> starter" where
  "repo_starter f s =
     (case f s of
        (s', es, Resolves) \<Rightarrow> (s', es, Started)
      | (s', es, Rejects) \<Rightarrow> (s', es, Failed ErrorObject))"

text \<open>Line 189.\<close>

definition reconnect_mark :: "session \<Rightarrow> session" where
  "reconnect_mark s = s\<lparr>reconnecting := True\<rparr>"

text \<open>Lines 193-199: the old engine is destroyed, a rejection is logged and dropped.\<close>

definition reconnect_teardown :: "outcome \<Rightarrow> session \<Rightarrow> effect list" where
  "reconnect_teardown teardown s =
     (case client s of
        None \<Rightarrow> []
      | Some c \<Rightarrow>
          ClientDestroy c
          # (case teardown of Resolves \<Rightarrow> [] | Rejects \<Rightarrow> [Log ''Error destroying old client'']))"

text \<open>Lines 202-205.\<close>

definition reconnect_reset :: "session \<Rightarrow> session" where
  "reconnect_reset s = s\<lparr>client := None, isReady := False, isAuthenticated := False, qrCode := None\<rparr>"

text \<open>
  Lines 216-257: the start routines and the \<^verbatim>\<open>catch\<close>. The last component is how the
  promise of \<^verbatim>\<open>reconnectSession\<close> settles. Each \<^verbatim>\<open>catch\<close> first reads the \<^verbatim>\<open>message\<close> of
  what it caught (lines 226 and 235): on \<^verbatim>\<open>null\<close> or \<^verbatim>\<open>undefined\<close> that read throws, the
  rest of the block is skipped and the call rejects, the flag left as it is.
\<close>

definition reconnect_start ::
  "bool \<Rightarrow> sid \<Rightarrow> starter option \<Rightarrow> starter option \<Rightarrow> session
     \<Rightarrow> session \<times> effect list \<times> outcome" where
  "reconnect_start i sessionId init fallback s =
     (let failed = (if i then [Emit sessionId ''reconnection_failed''] else []) in
      case init of
        None \<Rightarrow>
          (s\<lparr>reconnecting := False\<rparr>, [Log ''No initializeClient function provided''], Resolves)
      | Some f \<Rightarrow>
          (case f s of
             (s1, es1, Started) \<Rightarrow>
               (s1\<lparr>reconnecting := False\<rparr>, es1 @ [Log ''reconnected successfully''], Resolves)
           | (s1, es1, Failed Nullish) \<Rightarrow> (s1, es1, Rejects)
           | (s1, es1, Failed ErrorObject) \<Rightarrow>
               (case fallback of
                  None \<Rightarrow>
                    (s1\<lparr>reconnecting := False\<rparr>,
                     es1 @ [LogError ''Failed to reconnect session''] @ failed, Resolves)
                | Some g \<Rightarrow>
                    (case g s1 of
                       (s2, es2, Started) \<Rightarrow>
                         (s2\<lparr>reconnecting := False\<rparr>,
                          es1 @ [LogError ''Failed to reconnect session''] @ es2
                          @ [Log ''reconnected using fallback method''], Resolves)
                     | (s2, es2, Failed Nullish) \<Rightarrow>
                         (s2, es1 @ [LogError ''Failed to reconnect session''] @ es2, Rejects)
                     | (s2, es2, Failed ErrorObject) \<Rightarrow>
                         (s2\<lparr>reconnecting := False\<rparr>,
                          es1 @ [LogError ''Failed to reconnect session''] @ es2
                          @ [LogError ''Fallback reconnection also failed''] @ failed,
                          Resolves)))))"

text \<open>
  \<^verbatim>\<open>reconnectSession\<close> up to line 189, after which it awaits the teardown or the start
  routine: the manager as everything else sees it during those awaits, the effects, and
  the session object the call goes on with (\<open>None\<close> when the call has returned).
\<close>

definition reconnectSession_begin :: "manager \<Rightarrow> sid \<Rightarrow> manager \<times> effect list \<times> session option" where
  "reconnectSession_begin m sessionId =
     (case map_of (sessions m) sessionId of
        None \<Rightarrow> (m, [Log ''not found for reconnection''], None)
      | Some s \<Rightarrow>
          if reconnecting s then (m, [Log ''already reconnecting, skipping''], None)
          else
            (m\<lparr>sessions := AList.update sessionId (reconnect_mark s) (sessions m)\<rparr>,
             [Log ''Attempting to reconnect session''], Some (reconnect_mark s)))"

text \<open>Lines 191-258, on the session object \<open>s1\<close> the call holds.\<close>

definition reconnectSession_finish ::
  "manager \<Rightarrow> sid \<Rightarrow> session \<Rightarrow> starter option \<Rightarrow> starter option \<Rightarrow> outcome
     \<Rightarrow> manager \<times> effect list \<times> outcome"
  where
  "reconnectSession_finish m sessionId s1 init fallback teardown =
     (let es1 = reconnect_teardown teardown s1;
          s2 = reconnect_reset s1;
          es2 = (if io m then [Emit sessionId ''reconnecting''] else [])
      in case reconnect_start (io m) sessionId init fallback s2 of
           (s3, es3, r) \<Rightarrow>
             (m\<lparr>sessions := AList.update sessionId s3 (sessions m)\<rparr>, es1 @ es2 @ es3, r))"

text \<open>
  \<^verbatim>\<open>reconnectSession\<close>, run with nothing in between; \<open>teardown\<close> says how
  \<^verbatim>\<open>session.client.destroy()\<close> settles. The last component is how the returned promise
  settles.
\<close>

definition reconnectSession ::
  "manager \<Rightarrow> sid \<Rightarrow> starter option \<Rightarrow> starter option \<Rightarrow> outcome
     \<Rightarrow> manager \<times> effect list \<times> outcome" where
  "reconnectSession m sessionId init fallback teardown =
     (case reconnectSession_begin m sessionId of
        (m1, es, None) \<Rightarrow> (m1, es, Resolves)
      | (m1, es, Some s1) \<Rightarrow>
          (case reconnectSession_finish m1 sessionId s1 init fallback teardown of
             (m2, es', r) \<Rightarrow> (m2, es @ es', r)))"

section \<open>One session record over time\<close>

text \<open>
  What can happen to one registered session record, in terms of the code above:
  \<^item> \<open>StartRequest\<close>: the start route on the current session, up to
    \<^verbatim>\<open>session.client = client\<close>; with an engine attached it answers "Session already
    started" and changes nothing;
  \<^item> \<open>PrimaryFailed\<close>: \<^verbatim>\<open>client.initialize()\<close> of the primary engine fails or times out;
  \<^item> \<open>FallbackAttach\<close>, \<open>FallbackFailed\<close>: the fallback start attaches its engine, and
    its \<^verbatim>\<open>initialize()\<close> fails;
  \<^item> \<open>Event now e\<close>: the attached engine emits \<open>e\<close> at time \<open>now\<close>; the listeners are those
    of the routine that attached it. Without an engine nothing is emitted;
  \<^item> \<open>Reconnect t\<close>: \<^verbatim>\<open>reconnectSession(sessionId)\<close> without start routines, which is how
    the health check and every route call it; \<open>t\<close> says how the teardown settles.
\<close>

datatype transition =
    StartRequest
  | PrimaryFailed
  | FallbackAttach
  | FallbackFailed
  | Event time engine_event
  | Reconnect outcome

definition deliver :: "sid \<Rightarrow> time \<Rightarrow> time \<Rightarrow> engine_event \<Rightarrow> session \<Rightarrow> session \<times> effect list" where
  "deliver i startTime now e s =
     (case client s of
        None \<Rightarrow> (s, [])
      | Some (Client Primary _) \<Rightarrow> primary_listener i startTime now e s
      | Some (Client Fallback _) \<Rightarrow> fallback_listener i e s)"

fun apply_transition :: "sid \<Rightarrow> time \<Rightarrow> transition \<Rightarrow> session \<Rightarrow> session" where
  "apply_transition i startTime StartRequest s =
     (if client s \<noteq> None then s else fst (initializeClient_attach i s))"
| "apply_transition i startTime PrimaryFailed s = fst (initializeClient_failed i s)"
| "apply_transition i startTime FallbackAttach s = fst (initializeClientFallback_attach i s)"
| "apply_transition i startTime FallbackFailed s = s"
| "apply_transition i startTime (Event now e) s = fst (deliver i startTime now e s)"
| "apply_transition i startTime (Reconnect t) s =
     (if reconnecting s then s
      else fst (reconnect_start True i None None (reconnect_reset (reconnect_mark s))))"

text \<open>
  The lifecycle states of the specification (section 4.2). The code has no such field;
  \<open>spec_lifecycle_step\<close> follows the specification's words: a start request takes
  \<open>CREATED\<close> to \<open>INITIALIZING\<close> and is idempotent; authentication success and ready lead to
  \<open>AUTHENTICATED\<close> and \<open>READY\<close>, duplicates are ignored; \<open>DISCONNECTED\<close> is reached from
  \<open>READY\<close>; a fatal error, an initialization failure or timeout and a terminal
  authentication failure (section 7) return the record to \<open>CREATED\<close>; reconnection
  resets the record before it starts again. \<open>DESTROYED\<close> is the state of a record that
  has left the registry.
\<close>

datatype lifecycle = CREATED | INITIALIZING | AUTHENTICATED | READY | DISCONNECTED | DESTROYED

fun spec_lifecycle_step :: "transition \<Rightarrow> lifecycle \<Rightarrow> lifecycle" where
  "spec_lifecycle_step StartRequest l = (if l = CREATED then INITIALIZING else l)"
| "spec_lifecycle_step PrimaryFailed l = CREATED"
| "spec_lifecycle_step FallbackAttach l = (if l = CREATED then INITIALIZING else l)"
| "spec_lifecycle_step FallbackFailed l = CREATED"
| "spec_lifecycle_step (Event now Authenticated) l = (if l = INITIALIZING then AUTHENTICATED else l)"
| "spec_lifecycle_step (Event now (Ready info)) l =
     (if l = INITIALIZING \<or> l = AUTHENTICATED \<or> l = DISCONNECTED then READY else l)"
| "spec_lifecycle_step (Event now (Disconnected reason)) l = (if l = READY then DISCONNECTED else l)"
| "spec_lifecycle_step (Event now AuthFailure) l = CREATED"
| "spec_lifecycle_step (Event now EngineError) l = CREATED"
| "spec_lifecycle_step (Event now (Qr r url)) l = l"
| "spec_lifecycle_step (Event now LoadingScreen) l = l"
| "spec_lifecycle_step (Reconnect t) l = CREATED"

text \<open>The record of the code and the state of the specification, stepped together.\<close>

fun run :: "sid \<Rightarrow> time \<Rightarrow> transition list \<Rightarrow> session \<times> lifecycle \<Rightarrow> session \<times> lifecycle" where
  "run i startTime [] sl = sl"
| "run i startTime (t # ts) (s, l) =
     run i startTime ts (apply_transition i startTime t s, spec_lifecycle_step t l)"

text \<open>
  The transitions after which the code keeps an engine handle although the specification
  has the record back in \<open>CREATED\<close>: the fallback start has no cleanup, and the listeners
  of \<^verbatim>\<open>auth_failure\<close> and \<^verbatim>\<open>error\<close> detach nothing.
\<close>

fun keeps_handle_on_failure :: "transition \<Rightarrow> bool" where
  "keeps_handle_on_failure FallbackFailed = True"
| "keeps_handle_on_failure (Event now AuthFailure) = True"
| "keeps_handle_on_failure (Event now EngineError) = True"
| "keeps_handle_on_failure t = False"

section \<open>The registry over time\<close>

fun park :: "suspended option \<Rightarrow> suspended list \<Rightarrow> suspended list" where
  "park None ps = ps"
| "park (Some p) ps = p # ps"

text \<open>An engine event arriving for a registered session.\<close>

definition deliver_to :: "manager \<Rightarrow> sid \<Rightarrow> time \<Rightarrow> time \<Rightarrow> engine_event \<Rightarrow> manager \<times> effect list" where
  "deliver_to m i startTime now e =
     (case map_of (sessions m) i of
        None \<Rightarrow> (m, [])
      | Some s \<Rightarrow>
          (case deliver i startTime now e s of
             (s', es) \<Rightarrow> (m\<lparr>sessions := AList.update i s' (sessions m)\<rparr>, es)))"

text \<open>
  The states the registry goes through: \<open>reach m ids ps\<close> holds when \<open>m\<close> is the manager
  after some sequence of calls, \<open>ids\<close> are the ids that \<^verbatim>\<open>getOrCreateSession\<close> has returned
  so far and \<open>ps\<close> the calls of \<^verbatim>\<open>destroySession\<close> parked at an \<^verbatim>\<open>await\<close>. A parked call
  goes on at any later moment, with either outcome. The id generator is uuid v4: the
  id it yields at a call is the argument \<open>newId\<close> of that step, and nothing is assumed
  of it. \<open>reach_mutate\<close> is any assignment to the
  fields of a registered session object other than \<^verbatim>\<open>userId\<close>, which nothing assigns
  after the creation: the routes and the socket handlers set \<^verbatim>\<open>lastActivity\<close>, and
  between the awaits of the start route and of \<^verbatim>\<open>reconnectSession\<close> the listeners run.
  \<open>reach_debug_cleanup\<close> is the timer of the route \<^verbatim>\<open>/debug/test-qr-flow\<close>, which
  deletes from both maps directly.
\<close>

inductive reach :: "manager \<Rightarrow> sid list \<Rightarrow> suspended list \<Rightarrow> bool" where
  reach_new: "reach (new_manager i) [] []"
| reach_create:
    "reach m ids ps \<Longrightarrow> getOrCreateSession m u d now newId = (m', r, es, p) \<Longrightarrow>
     reach m' (r # ids) (park p ps)"
| reach_destroy:
    "reach m ids ps \<Longrightarrow> destroySession_begin m i = (m', es, p) \<Longrightarrow> reach m' ids (park p ps)"
| reach_resume:
    "reach m ids ps \<Longrightarrow> q \<in> set ps \<Longrightarrow> destroySession_resume m q r = (m', es, p) \<Longrightarrow>
     reach m' ids (park p (remove1 q ps))"
| reach_unfinished:
    "reach m ids ps \<Longrightarrow> cleanupUnfinishedSessions m now = (m', es, qs) \<Longrightarrow> reach m' ids (qs @ ps)"
| reach_inactive:
    "reach m ids ps \<Longrightarrow> cleanupInactiveSessions m now = (m', es, qs) \<Longrightarrow> reach m' ids (qs @ ps)"
| reach_start:
    "reach m ids ps \<Longrightarrow> startSessionHandler m a b r1 r2 = (m', resp, es) \<Longrightarrow> reach m' ids ps"
| reach_reconnect:
    "reach m ids ps \<Longrightarrow> reconnectSession m i f g t = (m', es, r) \<Longrightarrow> reach m' ids ps"
| reach_event:
    "reach m ids ps \<Longrightarrow> deliver_to m i startTime now e = (m', es) \<Longrightarrow> reach m' ids ps"
| reach_mutate:
    "reach m ids ps \<Longrightarrow> map_of (sessions m) i = Some s \<Longrightarrow> userId s' = userId s \<Longrightarrow>
     reach (m\<lparr>sessions := AList.update i s' (sessions m)\<rparr>) ids ps"
| reach_debug_cleanup:
    "reach m ids ps \<Longrightarrow>
     reach (m\<lparr>sessions := AList.delete i (sessions m),
              userSessions := AList.delete u (userSessions m)\<rparr>) ids ps"

section \<open>The audio conversion cache (src/core/AudioConverter.js)\<close>

type_synonym bytes = "nat list"

text \<open>The files of the cache directory: a path has a content or does not exist.\<close>

type_synonym filesystem = "string \<Rightarrow> bytes option"

record cacheInfo =
  filePath :: string
  timestamp :: time
  originalSize :: nat
  convertedSize :: nat

record audioConverter =
  audioConversionCache :: "(string \<times> cacheInfo) list"
  audioConversionTTL :: int
  audioConversionDir :: string
  ffmpegAvailable :: bool

text \<open>
  The constructor. \<^verbatim>\<open>initializeFFmpeg\<close> looks for the FFmpeg binary on the machine and runs
  it once; what it finds is the argument \<open>available\<close>. Its body has no \<^verbatim>\<open>await\<close>, so the
  flag is set when the constructor returns, and nothing assigns it afterwards.
\<close>

definition new_converter :: "string \<Rightarrow> bool \<Rightarrow> audioConverter" where
  "new_converter dir available =
     \<lparr>audioConversionCache = [], audioConversionTTL = AUDIO_CONVERSION_TTL,
      audioConversionDir = dir, ffmpegAvailable = available\<rparr>"

text \<open>
  \<^verbatim>\<open>getFileExtension\<close>. Strings are byte strings here: \<^verbatim>\<open>toLowerCase\<close> and \<^verbatim>\<open>trim\<close> are
  modelled on ASCII letters and ASCII white space, and are exact on ASCII strings (the
  mimetypes the callers pass are ASCII). \<^verbatim>\<open>extensions\<close> is an object literal, so a lookup
  also finds what it inherits from \<^verbatim>\<open>Object.prototype\<close>; the inherited names a lower-cased
  key can hit are \<^verbatim>\<open>constructor\<close> and \<^verbatim>\<open>__proto__\<close>, both truthy. The result is used only
  inside a template literal: \<open>inherited\<close> gives the strings those two values become
  there.
\<close>

definition toLowerCase :: "string \<Rightarrow> string" where
  "toLowerCase =
     map (\<lambda>c. let n = (of_char c :: nat) in if 65 \<le> n \<and> n \<le> 90 then char_of (n + 32) else c)"

definition is_space :: "char \<Rightarrow> bool" where
  "is_space c \<longleftrightarrow> (of_char c :: nat) \<in> {9, 10, 11, 12, 13, 32}"

definition trim :: "string \<Rightarrow> string" where
  "trim xs = rev (dropWhile is_space (rev (dropWhile is_space xs)))"

definition extensions :: "(string \<times> string) list" where
  "extensions =
     [(''audio/ogg'', ''ogg''), (''audio/ogg; codecs=opus'', ''ogg''), (''audio/opus'', ''opus''),
      (''audio/webm'', ''webm''), (''audio/aac'', ''aac''), (''audio/m4a'', ''m4a''),
      (''audio/wav'', ''wav''), (''audio/flac'', ''flac''), (''audio/mpeg'', ''mp3''),
      (''audio/mp3'', ''mp3'')]"

definition inherited :: "(string \<times> string) list" where
  "inherited =
     [(''constructor'', ''function Object() { [native code] }''),
      (''__proto__'', ''[object Object]'')]"

definition getFileExtension :: "string \<Rightarrow> string" where
  "getFileExtension mimetype =
     (let baseMimetype = trim (takeWhile (\<lambda>c. c \<noteq> CHR '';'') (toLowerCase mimetype)) in
      case map_of (extensions @ inherited) (toLowerCase mimetype) of
        Some x \<Rightarrow> x
      | None \<Rightarrow>
          (case map_of (extensions @ inherited) baseMimetype of
             Some x \<Rightarrow> x
           | None \<Rightarrow> ''audio''))"

text \<open>
  \<^verbatim>\<open>path.join(dir, name)\<close> on a POSIX system, where \<open>dir\<close> is a normalised path without
  a trailing separator (the server passes \<^verbatim>\<open>path.join(__dirname, 'audio_cache')\<close>) and
  \<open>name\<close> has no separator and is no dot segment: there \<^verbatim>\<open>path.join\<close> has nothing to
  normalise.
\<close>

definition path_join :: "string \<Rightarrow> string \<Rightarrow> string" where
  "path_join dir name = dir @ ''/'' @ name"

definition inputPath :: "audioConverter \<Rightarrow> string \<Rightarrow> string \<Rightarrow> string" where
  "inputPath c mimetype mediaId =
     path_join (audioConversionDir c) (''input_'' @ mediaId @ ''.'' @ getFileExtension mimetype)"

definition outputPath :: "audioConverter \<Rightarrow> string \<Rightarrow> string" where
  "outputPath c mediaId = path_join (audioConversionDir c) (''output_'' @ mediaId @ ''.mp3'')"

text \<open>
  How a run of FFmpeg ends: it emits \<^verbatim>\<open>end\<close>, having written the output file (or having
  left none that can be read); it emits \<^verbatim>\<open>error\<close>; or the timeout of
  \<^verbatim>\<open>AUDIO_CONVERSION_TIMEOUT\<close> fires first and kills it (what the killed process emits
  afterwards finds the promise already rejected and is left out).
\<close>

datatype engine_outcome = EngineEnd "bytes option" | EngineFails | EngineTimeout

datatype 'a settled = Resolved 'a | Rejected string

text \<open>
  \<^verbatim>\<open>convertAudioToMp3\<close>. \<open>now\<close> is the clock at the cache lookup and \<open>now2\<close> the one when
  the conversion has ended; \<open>wr\<close> says how \<^verbatim>\<open>fs.writeFile\<close> of the input settles and
  \<open>engine\<close> how FFmpeg ends. \<^verbatim>\<open>fs.readFile\<close> rejects on a path that does not exist.
  The result is what the returned promise settles to, the converter, the files and the
  effects.
\<close>

definition convert_fresh ::
  "audioConverter \<Rightarrow> filesystem \<Rightarrow> time \<Rightarrow> bytes \<Rightarrow> string \<Rightarrow> string \<Rightarrow> outcome \<Rightarrow> engine_outcome
     \<Rightarrow> bytes settled \<times> audioConverter \<times> filesystem \<times> effect list" where
  "convert_fresh c files now2 inputBuffer mimetype mediaId wr engine =
     (let inp = inputPath c mimetype mediaId;
          out = outputPath c mediaId;
          es0 = [FsMkdir (audioConversionDir c), Log ''Converting audio to MP3'', FsWriteFile inp]
      in case wr of
           Rejects \<Rightarrow>
             (Rejected ''write failed'', c, files, es0 @ [LogError ''Audio conversion setup error''])
         | Resolves \<Rightarrow>
             (let files1 = files(inp \<mapsto> inputBuffer); es1 = es0 @ [FfmpegRun inp out] in
              case engine of
                EngineEnd (Some converted) \<Rightarrow>
                  (Resolved converted,
                   c\<lparr>audioConversionCache :=
                       AList.update mediaId
                         \<lparr>filePath = out, timestamp = now2, originalSize = length inputBuffer,
                          convertedSize = length converted\<rparr>
                         (audioConversionCache c)\<rparr>,
                   (files1(out \<mapsto> converted))(inp := None),
                   es1 @ [Log ''Audio conversion completed'', FsReadFile out, FsUnlink inp])
              | EngineEnd None \<Rightarrow>
                  (Rejected ''read failed'', c, files1,
                   es1 @ [Log ''Audio conversion completed'', FsReadFile out,
                          LogError ''Error reading converted file''])
              | EngineFails \<Rightarrow>
                  (Rejected ''Audio conversion failed'', c, files1(inp := None, out := None),
                   es1 @ [LogError ''FFmpeg conversion error'', FsUnlink inp, FsUnlink out])
              | EngineTimeout \<Rightarrow>
                  (Rejected ''Audio conversion timeout'', c, files1, es1 @ [FfmpegKill])))"

definition convertAudioToMp3 ::
  "audioConverter \<Rightarrow> filesystem \<Rightarrow> time \<Rightarrow> time \<Rightarrow> bytes \<Rightarrow> string \<Rightarrow> string \<Rightarrow> outcome
     \<Rightarrow> engine_outcome \<Rightarrow> bytes settled \<times> audioConverter \<times> filesystem \<times> effect list" where
  "convertAudioToMp3 c files now now2 inputBuffer mimetype mediaId wr engine =
     (if \<not> ffmpegAvailable c
      then (Rejected ''FFmpeg is not available on this server'', c, files, [])
      else
        (case map_of (audioConversionCache c) mediaId of
           None \<Rightarrow> convert_fresh c files now2 inputBuffer mimetype mediaId wr engine
         | Some cacheEntry \<Rightarrow>
             if now - timestamp cacheEntry < audioConversionTTL c
             then
               (case files (filePath cacheEntry) of
                  Some cachedBuffer \<Rightarrow>
                    (Resolved cachedBuffer, c, files,
                     [Log ''Using cached MP3 conversion'', FsReadFile (filePath cacheEntry)])
                | None \<Rightarrow>
                    (Rejected ''read failed'', c, files,
                     [Log ''Using cached MP3 conversion'', FsReadFile (filePath cacheEntry),
                      LogError ''Audio conversion setup error'']))
             else convert_fresh c files now2 inputBuffer mimetype mediaId wr engine))"

text \<open>
  \<^verbatim>\<open>cleanupAudioCache\<close>: an expired entry leaves the cache whether or not its file could
  be unlinked.
\<close>

fun cleanupAudio_loop ::
  "time \<Rightarrow> (string \<times> cacheInfo) list \<Rightarrow> audioConverter \<times> filesystem \<Rightarrow> audioConverter \<times> filesystem"
  where
  "cleanupAudio_loop now [] cf = cf"
| "cleanupAudio_loop now ((mediaId, cacheInfo) # rest) (c, files) =
     (if now - timestamp cacheInfo > audioConversionTTL c
      then cleanupAudio_loop now rest
             (c\<lparr>audioConversionCache := AList.delete mediaId (audioConversionCache c)\<rparr>,
              files(filePath cacheInfo := None))
      else cleanupAudio_loop now rest (c, files))"

definition cleanupAudioCache :: "audioConverter \<Rightarrow> filesystem \<Rightarrow> time \<Rightarrow> audioConverter \<times> filesystem" where
  "cleanupAudioCache c files now = cleanupAudio_loop now (audioConversionCache c) (c, files)"

text \<open>The states a converter goes through after its construction.\<close>

inductive converter_reach :: "audioConverter \<Rightarrow> bool" where
  converter_new: "converter_reach (new_converter dir available)"
| converter_convert:
    "converter_reach c \<Longrightarrow>
     convertAudioToMp3 c files now now2 inputBuffer mimetype mediaId wr engine = (r, c', files', es)
     \<Longrightarrow> converter_reach c'"
| converter_cleanup:
    "converter_reach c \<Longrightarrow> cleanupAudioCache c files now = (c', files') \<Longrightarrow> converter_reach c'"

section \<open>Notions used in the statements\<close>


text \<open>No session id has two entries in \<^verbatim>\<open>sessions\<close>.\<close>

definition sessions_wf :: "manager \<Rightarrow> bool" where
  "sessions_wf m \<longleftrightarrow> distinct (map fst (sessions m))"

text \<open>The session a parked call of \<^verbatim>\<open>destroySession\<close> is destroying.\<close>

fun suspended_sid :: "suspended \<Rightarrow> sid" where
  "suspended_sid (AwaitTeardown i s) = i"
| "suspended_sid (AwaitRm i) = i"

text \<open>The condition of line 78.\<close>

definition unfinished :: "int \<Rightarrow> time \<Rightarrow> session \<Rightarrow> bool" where
  "unfinished timeout now s \<longleftrightarrow>
     \<not> isReady s \<and> \<not> isAuthenticated s \<and> now - lastActivity s > timeout"

text \<open>The lifecycle states in which the code holds an engine handle.\<close>

definition attached :: "lifecycle \<Rightarrow> bool" where
  "attached l \<longleftrightarrow> l \<in> {INITIALIZING, AUTHENTICATED, READY, DISCONNECTED}"

section \<open>Example states\<close>

text \<open>
  A registry in which user \<open>u1\<close> creates session \<open>A\<close> and starts it
  (\<open>example_started\<close>); the engine authenticates at 150 s and is ready at 200 s
  (\<open>example_live\<close>). In \<open>example_superseded\<close> the user has created session \<open>B\<close> after
  the start: \<open>A\<close> is superseded, and its \<^verbatim>\<open>destroySession\<close> is parked on the teardown
  of its engine. In \<open>example_two\<close> a second user has created session \<open>C\<close> at time 0 and
  never started it.
\<close>

definition example_created :: manager where
  "example_created = fst (getOrCreateSession (new_manager True) ''u1'' ''device'' 0 ''A'')"

definition example_started :: manager where
  "example_started =
     fst (startSessionHandler example_created (Some ''A'') None InitializeOk InitializeOk)"

definition example_superseded :: manager where
  "example_superseded = fst (getOrCreateSession example_started ''u1'' ''device'' 10 ''B'')"

definition example_live :: manager where
  "example_live =
     fst (deliver_to (fst (deliver_to example_started ''A'' 0 150000 Authenticated))
            ''A'' 0 200000 (Ready (Some ''491700000000'')))"

definition example_two :: manager where
  "example_two = fst (getOrCreateSession example_live ''u2'' ''device2'' 0 ''C'')"

text \<open>
  The record of session \<open>A\<close> in \<open>example_started\<close> and in \<open>example_live\<close>, and the
  record of session \<open>B\<close> once it is started.
\<close>

definition example_session_B :: session where
  "example_session_B =
     \<lparr>client = Some (Client Primary ''B''), isReady = False, isAuthenticated = False,
      qrCode = None, userId = ''u1'', deviceInfo = ''device'', lastActivity = 10,
      phoneNumber = None, reconnecting = False\<rparr>"


definition example_session :: session where
  "example_session =
     \<lparr>client = Some (Client Primary ''A''), isReady = False, isAuthenticated = False,
      qrCode = None, userId = ''u1'', deviceInfo = ''device'', lastActivity = 0,
      phoneNumber = None, reconnecting = False\<rparr>"

text \<open>
  In \<open>example_restarted\<close> the new session \<open>B\<close> of \<open>example_superseded\<close> has been
  started while the teardown of \<open>A\<close> was still awaited; in \<open>example_orphaned\<close> that
  teardown has then resolved and the parked \<^verbatim>\<open>destroySession('A')\<close> has gone on.
\<close>

definition example_restarted :: manager where
  "example_restarted =
     fst (startSessionHandler example_superseded (Some ''B'') None InitializeOk InitializeOk)"

definition example_orphaned :: manager where
  "example_orphaned =
     fst (destroySession_resume example_restarted (AwaitTeardown ''A'' example_session) Resolves)"

definition example_ready :: session where
  "example_ready =
     example_session\<lparr>isReady := True, isAuthenticated := True, lastActivity := 150000,
                     phoneNumber := Some ''491700000000''\<rparr>"

text \<open>
  A converter that has converted \<open>media1\<close> at time 1000, and the cache directory after
  that conversion.
\<close>

definition example_converter :: audioConverter where
  "example_converter =
     fst (snd (convertAudioToMp3 (new_converter ''cache'' True) (\<lambda>p. None) 0 1000 [1, 2, 3]
                 ''audio/ogg'' ''media1'' Resolves (EngineEnd (Some [7, 7]))))"

definition example_files :: filesystem where
  "example_files = (\<lambda>p. if p = ''cache/output_media1.mp3'' then Some [7, 7] else None)"

text \<open>The life of a session that starts, authenticates, is ready and then disconnects.\<close>

definition example_life :: "transition list" where
  "example_life =
     [StartRequest, Event 150000 Authenticated, Event 200000 (Ready None),
      Event 900000 (Disconnected ''NAVIGATION'')]"

section \<open>The example states, evaluated\<close>

lemma example_created_value:
  "getOrCreateSession (new_manager True) ''u1'' ''device'' 0 ''A''
   = (example_created, ''A'', [Log ''Created new session''], None)
   \<and> example_created =
     \<lparr>sessions = [(''A'', new_session ''u1'' ''device'' 0)], userSessions = [(''u1'', ''A'')],
      sessionTimeout = SESSION_TIMEOUT, unfinishedSessionTimeout = UNFINISHED_SESSION_TIMEOUT,
      io = True\<rparr>"
  by (simp add: example_created_def getOrCreateSession_def new_manager_def)

lemma example_started_value:
  "example_started =
     \<lparr>sessions = [(''A'', example_session)], userSessions = [(''u1'', ''A'')],
      sessionTimeout = SESSION_TIMEOUT, unfinishedSessionTimeout = UNFINISHED_SESSION_TIMEOUT,
      io = True\<rparr>"
  by (simp add: example_started_def example_created_value startSessionHandler_def js_or_def
      new_session_def initializeClient_def initializeClient_attach_def example_session_def)

lemma example_superseded_value:
  "getOrCreateSession example_started ''u1'' ''device'' 10 ''B''
   = (example_superseded, ''B'',
      [Log ''cleaning up existing session'', ClientDestroy (Client Primary ''A''),
       Log ''Created new session''],
      Some (AwaitTeardown ''A'' example_session))
   \<and> example_superseded =
     \<lparr>sessions = [(''A'', example_session), (''B'', new_session ''u1'' ''device'' 10)],
      userSessions = [(''u1'', ''B'')],
      sessionTimeout = SESSION_TIMEOUT, unfinishedSessionTimeout = UNFINISHED_SESSION_TIMEOUT,
      io = True\<rparr>"
  by (simp add: example_superseded_def example_started_value getOrCreateSession_def
      destroySession_begin_def example_session_def)

lemma example_live_value:
  "example_live =
     \<lparr>sessions = [(''A'', example_ready)], userSessions = [(''u1'', ''A'')],
      sessionTimeout = SESSION_TIMEOUT, unfinishedSessionTimeout = UNFINISHED_SESSION_TIMEOUT,
      io = True\<rparr>"
  by (simp add: example_live_def example_started_value deliver_to_def deliver_def
      example_session_def example_ready_def)

lemma example_two_value:
  "example_two =
     \<lparr>sessions = [(''A'', example_ready), (''C'', new_session ''u2'' ''device2'' 0)],
      userSessions = [(''u1'', ''A''), (''u2'', ''C'')],
      sessionTimeout = SESSION_TIMEOUT, unfinishedSessionTimeout = UNFINISHED_SESSION_TIMEOUT,
      io = True\<rparr>"
  by (simp add: example_two_def example_live_value getOrCreateSession_def)

lemma example_converter_value:
  "example_converter =
     \<lparr>audioConversionCache =
        [(''media1'', \<lparr>filePath = ''cache/output_media1.mp3'', timestamp = 1000,
                        originalSize = 3, convertedSize = 2\<rparr>)],
      audioConversionTTL = AUDIO_CONVERSION_TTL, audioConversionDir = ''cache'',
      ffmpegAvailable = True\<rparr>"
  by (simp add: example_converter_def convertAudioToMp3_def convert_fresh_def new_converter_def
      outputPath_def path_join_def Let_def)

lemma tuple3: "p = (fst p, fst (snd p), snd (snd p))"
  by simp

lemma tuple4: "p = (fst p, fst (snd p), fst (snd (snd p)), snd (snd (snd p)))"
  by simp

lemma example_restarted_value:
  "example_restarted =
     \<lparr>sessions = [(''A'', example_session), (''B'', example_session_B)],
      userSessions = [(''u1'', ''B'')],
      sessionTimeout = SESSION_TIMEOUT, unfinishedSessionTimeout = UNFINISHED_SESSION_TIMEOUT,
      io = True\<rparr>"
  by (simp add: example_restarted_def example_superseded_value startSessionHandler_def js_or_def
      new_session_def initializeClient_def initializeClient_attach_def example_session_def
      example_session_B_def)

lemma example_orphaned_value:
  "example_orphaned =
     \<lparr>sessions = [(''B'', example_session_B)], userSessions = [],
      sessionTimeout = SESSION_TIMEOUT, unfinishedSessionTimeout = UNFINISHED_SESSION_TIMEOUT,
      io = True\<rparr>"
  by (simp add: example_orphaned_def example_restarted_value destroySession_remove_def
      example_session_def)

lemma example_reach:
  "reach example_created [''A''] [] \<and> reach example_started [''A''] []"
proof -
  have c: "reach example_created [''A''] []"
    using reach_create[OF reach_new conjunct1[OF example_created_value]] by simp
  have "reach (fst (startSessionHandler example_created (Some ''A'') None InitializeOk InitializeOk))
          [''A''] []"
    by (rule reach_start[OF c tuple3])
  with c show ?thesis by (simp add: example_started_def)
qed

text \<open>
  The registry gets into \<open>example_orphaned\<close> by calls alone: create \<open>A\<close>, start it,
  create \<open>B\<close>, start \<open>B\<close>, and then the teardown of \<open>A\<close> resolves.
\<close>

lemma example_orphaned_reach: "reach example_orphaned [''B'', ''A''] [AwaitRm ''A'']"
proof -
  have s: "reach example_started [''A''] []" using example_reach by simp
  have "reach example_superseded [''B'', ''A''] [AwaitTeardown ''A'' example_session]"
    using reach_create[OF s conjunct1[OF example_superseded_value]] by simp
  from reach_start[OF this tuple3, of "Some ''B''" None InitializeOk InitializeOk]
  have r: "reach example_restarted [''B'', ''A''] [AwaitTeardown ''A'' example_session]"
    by (simp add: example_restarted_def)
  have q: "AwaitTeardown ''A'' example_session \<in> set [AwaitTeardown ''A'' example_session]"
    by simp
  have e: "destroySession_resume example_restarted (AwaitTeardown ''A'' example_session) Resolves
           = (example_orphaned, [FsRm ''A''], Some (AwaitRm ''A''))"
    by (simp add: example_orphaned_def)
  from reach_resume[OF r q e] show ?thesis by simp
qed

section \<open>What a sweep touches\<close>

lemma destroySession_begin_frame:
  assumes "destroySession_begin m k = (m1, es1, p)"
  shows "(\<forall>i. i \<noteq> k \<longrightarrow> map_of (sessions m1) i = map_of (sessions m) i)
         \<and> unfinishedSessionTimeout m1 = unfinishedSessionTimeout m
         \<and> sessionTimeout m1 = sessionTimeout m
         \<and> (\<forall>q. p = Some q \<longrightarrow> suspended_sid q = k)
         \<and> (\<forall>i. FsRm i \<in> set es1 \<longrightarrow> i = k)"
  using assms
  by (auto simp: destroySession_begin_def destroySession_remove_def delete_conv'
      split: option.splits)

lemma cleanupUnfinished_loop_skip:
  "\<not> unfinished (unfinishedSessionTimeout m) now s \<Longrightarrow>
   cleanupUnfinished_loop now ((k, s) # xs) m = cleanupUnfinished_loop now xs m"
  by (auto simp: unfinished_def)

lemma cleanupUnfinished_loop_hit:
  "unfinished (unfinishedSessionTimeout m) now s \<Longrightarrow>
   cleanupUnfinished_loop now ((k, s) # xs) m =
     (case destroySession_begin m k of
        (m1, es1, p) \<Rightarrow>
          (case cleanupUnfinished_loop now xs m1 of
             (m2, es2, ps, n) \<Rightarrow>
               (m2, Log ''Cleaning up unfinished session'' # es1 @ es2,
                (case p of None \<Rightarrow> ps | Some q \<Rightarrow> q # ps), Suc n)))"
  by (simp add: unfinished_def)

lemma cleanupUnfinished_loop_frame:
  assumes "cleanupUnfinished_loop now xs m = (m', es, ps, n)"
  shows "(\<forall>i. (\<forall>s. (i, s) \<in> set xs \<longrightarrow> \<not> unfinished (unfinishedSessionTimeout m) now s)
              \<longrightarrow> map_of (sessions m') i = map_of (sessions m) i \<and> FsRm i \<notin> set es
                  \<and> i \<notin> suspended_sid ` set ps)
         \<and> unfinishedSessionTimeout m' = unfinishedSessionTimeout m"
  using assms
proof (induction xs arbitrary: m m' es ps n)
  case Nil
  then show ?case by simp
next
  case (Cons x xs)
  obtain k s where x: "x = (k, s)" by (cases x)
  show ?case
  proof (cases "unfinished (unfinishedSessionTimeout m) now s")
    case False
    from Cons.prems x cleanupUnfinished_loop_skip[OF False, of k xs]
    have l: "cleanupUnfinished_loop now xs m = (m', es, ps, n)"
      by simp
    from Cons.IH[OF l] show ?thesis by (auto simp: x)
  next
    case True
    obtain m1 es1 p where b: "destroySession_begin m k = (m1, es1, p)"
      by (cases "destroySession_begin m k")
    obtain m2 es2 ps2 n2 where l: "cleanupUnfinished_loop now xs m1 = (m2, es2, ps2, n2)"
      by (cases "cleanupUnfinished_loop now xs m1")
    from Cons.prems x b l cleanupUnfinished_loop_hit[OF True, of k xs]
    have res: "m' = m2" "es = Log ''Cleaning up unfinished session'' # es1 @ es2"
      "ps = (case p of None \<Rightarrow> ps2 | Some q \<Rightarrow> q # ps2)"
      by simp_all
    note f = destroySession_begin_frame[OF b]
    note ih = Cons.IH[OF l]
    have t: "unfinishedSessionTimeout m1 = unfinishedSessionTimeout m" using f by simp
    show ?thesis
    proof (intro conjI allI impI)
      show "unfinishedSessionTimeout m' = unfinishedSessionTimeout m"
        using ih t res(1) by simp
    next
      fix i
      assume a: "\<forall>s. (i, s) \<in> set (x # xs) \<longrightarrow> \<not> unfinished (unfinishedSessionTimeout m) now s"
      with True x have ik: "i \<noteq> k" by auto
      from a have a': "\<forall>s. (i, s) \<in> set xs \<longrightarrow> \<not> unfinished (unfinishedSessionTimeout m1) now s"
        using t by simp
      from ih a' have i2: "map_of (sessions m2) i = map_of (sessions m1) i" "FsRm i \<notin> set es2"
        "i \<notin> suspended_sid ` set ps2" by simp_all
      show "map_of (sessions m') i = map_of (sessions m) i"
        using i2(1) f ik res(1) by simp
      show "FsRm i \<notin> set es"
        using i2(2) f ik res(2) by auto
      show "i \<notin> suspended_sid ` set ps"
        using i2(3) f ik res(3) by (auto split: option.splits)
    qed
  qed
qed

section \<open>The registry over time: what every state satisfies\<close>












lemma sessions_wf_begin:
  "sessions_wf m \<Longrightarrow> destroySession_begin m i = (m', es, p) \<Longrightarrow> sessions_wf m'"
  by (auto simp: destroySession_begin_def destroySession_remove_def sessions_wf_def distinct_delete
      split: option.splits)

lemma sessions_wf_resume:
  "sessions_wf m \<Longrightarrow> destroySession_resume m q r = (m', es, p) \<Longrightarrow> sessions_wf m'"
  by (cases "(m, q, r)" rule: destroySession_resume.cases)
     (auto simp: destroySession_remove_def sessions_wf_def distinct_delete)

lemma getOrCreateSession_sessions:
  assumes "getOrCreateSession m u d now newId = (m', r, es, p)"
  shows "sessions m' = AList.update newId (new_session u d now) (sessions m)
         \<or> (\<exists>i m1 es1 p1. destroySession_begin m i = (m1, es1, p1)
               \<and> sessions m' = AList.update newId (new_session u d now) (sessions m1))"
proof (cases "map_of (userSessions m) u")
  case None
  with assms show ?thesis by (auto simp: getOrCreateSession_def)
next
  case (Some e)
  show ?thesis
  proof (cases "e \<noteq> [] \<and> map_of (sessions m) e \<noteq> None")
    case False
    with Some assms have "sessions m' = AList.update newId (new_session u d now) (sessions m)"
      by (auto simp: getOrCreateSession_def)
    then show ?thesis by simp
  next
    case True
    obtain m1 es1 p1 where b: "destroySession_begin m e = (m1, es1, p1)"
      by (cases "destroySession_begin m e")
    with Some True assms
    have "sessions m' = AList.update newId (new_session u d now) (sessions m1)"
      by (auto simp: getOrCreateSession_def)
    with b show ?thesis by blast
  qed
qed

lemma sessions_wf_create:
  assumes "sessions_wf m" and "getOrCreateSession m u d now newId = (m', r, es, p)"
  shows "sessions_wf m'"
proof -
  from getOrCreateSession_sessions[OF assms(2)]
  consider "sessions m' = AList.update newId (new_session u d now) (sessions m)"
    | i m1 es1 p1 where "destroySession_begin m i = (m1, es1, p1)"
        "sessions m' = AList.update newId (new_session u d now) (sessions m1)"
    by blast
  then show ?thesis
  proof cases
    case 1
    with assms(1) show ?thesis by (simp add: sessions_wf_def distinct_update)
  next
    case 2
    from sessions_wf_begin[OF assms(1) 2(1)] 2(2) show ?thesis
      by (simp add: sessions_wf_def distinct_update)
  qed
qed

lemma sessions_wf_unfinished_loop:
  "sessions_wf m \<Longrightarrow> cleanupUnfinished_loop now xs m = (m', es, ps, n) \<Longrightarrow> sessions_wf m'"
proof (induction xs arbitrary: m m' es ps n)
  case Nil
  then show ?case by simp
next
  case (Cons x xs)
  obtain i s where x: "x = (i, s)" by (cases x)
  show ?case
  proof (cases "unfinished (unfinishedSessionTimeout m) now s")
    case True
    obtain m1 es1 p where b: "destroySession_begin m i = (m1, es1, p)"
      by (cases "destroySession_begin m i")
    obtain m2 es2 ps2 n2 where l: "cleanupUnfinished_loop now xs m1 = (m2, es2, ps2, n2)"
      by (cases "cleanupUnfinished_loop now xs m1")
    from Cons.prems(2) x b l cleanupUnfinished_loop_hit[OF True, of i xs] have "m' = m2" by simp
    with Cons.IH[OF sessions_wf_begin[OF Cons.prems(1) b] l] show ?thesis by simp
  next
    case False
    from Cons.prems(2) x cleanupUnfinished_loop_skip[OF False, of i xs]
    have "cleanupUnfinished_loop now xs m = (m', es, ps, n)" by simp
    from Cons.IH[OF Cons.prems(1) this] show ?thesis .
  qed
qed

lemma sessions_wf_inactive_loop:
  "sessions_wf m \<Longrightarrow> cleanupInactive_loop now xs m = (m', es, ps) \<Longrightarrow> sessions_wf m'"
proof (induction xs arbitrary: m m' es ps)
  case Nil
  then show ?case by simp
next
  case (Cons x xs)
  obtain i s where x: "x = (i, s)" by (cases x)
  show ?case
  proof (cases "now - lastActivity s > sessionTimeout m")
    case True
    obtain m1 es1 p where b: "destroySession_begin m i = (m1, es1, p)"
      by (cases "destroySession_begin m i")
    obtain m2 es2 ps2 where l: "cleanupInactive_loop now xs m1 = (m2, es2, ps2)"
      by (cases "cleanupInactive_loop now xs m1")
    from Cons.prems(2) True x b l have "m' = m2" by simp
    with Cons.IH[OF sessions_wf_begin[OF Cons.prems(1) b] l] show ?thesis by simp
  next
    case False
    with Cons.prems(2) x have "cleanupInactive_loop now xs m = (m', es, ps)" by auto
    from Cons.IH[OF Cons.prems(1) this] show ?thesis .
  qed
qed

lemma sessions_wf_start:
  "sessions_wf m \<Longrightarrow> startSessionHandler m a b r1 r2 = (m', resp, es) \<Longrightarrow> sessions_wf m'"
  unfolding startSessionHandler_def sessions_wf_def
  by (auto simp: distinct_update split: option.splits if_splits prod.splits outcome.splits)

lemma sessions_wf_reconnect:
  "sessions_wf m \<Longrightarrow> reconnectSession m i f g t = (m', es, r) \<Longrightarrow> sessions_wf m'"
  unfolding reconnectSession_def reconnectSession_begin_def reconnectSession_finish_def
    sessions_wf_def
  by (auto simp: Let_def distinct_update split: option.splits if_splits prod.splits)

lemma sessions_wf_deliver_to:
  "sessions_wf m \<Longrightarrow> deliver_to m i st now e = (m', es) \<Longrightarrow> sessions_wf m'"
  unfolding deliver_to_def sessions_wf_def
  by (auto simp: distinct_update split: option.splits prod.splits)

lemma reach_sessions_wf: "reach m ids ps \<Longrightarrow> sessions_wf m"
proof (induction rule: reach.induct)
  case (reach_new i)
  show ?case by (simp add: sessions_wf_def new_manager_def)
next
  case (reach_create m ids ps u d now newId m' r es p)
  then show ?case using sessions_wf_create by blast
next
  case (reach_destroy m ids ps i m' es p)
  then show ?case using sessions_wf_begin by blast
next
  case (reach_resume m ids ps q r m' es p)
  then show ?case using sessions_wf_resume by blast
next
  case (reach_unfinished m ids ps now m' es qs)
  then show ?case
    by (auto simp: cleanupUnfinishedSessions_def split: prod.splits dest: sessions_wf_unfinished_loop)
next
  case (reach_inactive m ids ps now m' es qs)
  then show ?case
    by (auto simp: cleanupInactiveSessions_def dest: sessions_wf_inactive_loop)
next
  case (reach_start m ids ps a b r1 r2 m' resp es)
  then show ?case using sessions_wf_start by blast
next
  case (reach_reconnect m ids ps i f g t m' es r)
  then show ?case using sessions_wf_reconnect by blast
next
  case (reach_event m ids ps i startTime now e m' es)
  then show ?case using sessions_wf_deliver_to by blast
next
  case (reach_mutate m ids ps i s s')
  then show ?case by (simp add: sessions_wf_def distinct_update)
next
  case (reach_debug_cleanup m ids ps i u)
  then show ?case by (simp add: sessions_wf_def distinct_delete)
qed

lemma timeout_begin:
  "destroySession_begin m i = (m', es, p) \<Longrightarrow>
   unfinishedSessionTimeout m' = unfinishedSessionTimeout m"
  using destroySession_begin_frame by blast

lemma timeout_resume:
  "destroySession_resume m q r = (m', es, p) \<Longrightarrow>
   unfinishedSessionTimeout m' = unfinishedSessionTimeout m"
  by (cases "(m, q, r)" rule: destroySession_resume.cases)
     (auto simp: destroySession_remove_def)

lemma timeout_create:
  assumes "getOrCreateSession m u d now newId = (m', r, es, p)"
  shows "unfinishedSessionTimeout m' = unfinishedSessionTimeout m"
proof (cases "map_of (userSessions m) u")
  case None
  with assms show ?thesis by (auto simp: getOrCreateSession_def)
next
  case (Some e)
  show ?thesis
  proof (cases "e \<noteq> [] \<and> map_of (sessions m) e \<noteq> None")
    case False
    with Some assms show ?thesis by (auto simp: getOrCreateSession_def)
  next
    case True
    obtain m1 es1 p1 where b: "destroySession_begin m e = (m1, es1, p1)"
      by (cases "destroySession_begin m e")
    with Some True assms
    have "unfinishedSessionTimeout m' = unfinishedSessionTimeout m1"
      by (auto simp: getOrCreateSession_def)
    with timeout_begin[OF b] show ?thesis by simp
  qed
qed

lemma timeout_inactive_loop:
  "cleanupInactive_loop now xs m = (m', es, ps) \<Longrightarrow>
   unfinishedSessionTimeout m' = unfinishedSessionTimeout m"
proof (induction xs arbitrary: m m' es ps)
  case Nil
  then show ?case by simp
next
  case (Cons x xs)
  obtain i s where x: "x = (i, s)" by (cases x)
  show ?case
  proof (cases "now - lastActivity s > sessionTimeout m")
    case True
    obtain m1 es1 p where b: "destroySession_begin m i = (m1, es1, p)"
      by (cases "destroySession_begin m i")
    obtain m2 es2 ps2 where l: "cleanupInactive_loop now xs m1 = (m2, es2, ps2)"
      by (cases "cleanupInactive_loop now xs m1")
    from Cons.prems True x b l have "m' = m2" by simp
    with Cons.IH[OF l] timeout_begin[OF b] show ?thesis by simp
  next
    case False
    with Cons.prems x have "cleanupInactive_loop now xs m = (m', es, ps)" by auto
    from Cons.IH[OF this] show ?thesis .
  qed
qed

lemma timeout_start:
  "startSessionHandler m a b r1 r2 = (m', resp, es) \<Longrightarrow>
   unfinishedSessionTimeout m' = unfinishedSessionTimeout m"
  unfolding startSessionHandler_def
  by (auto split: option.splits if_splits prod.splits outcome.splits)

lemma timeout_reconnect:
  "reconnectSession m i f g t = (m', es, r) \<Longrightarrow>
   unfinishedSessionTimeout m' = unfinishedSessionTimeout m"
  unfolding reconnectSession_def reconnectSession_begin_def reconnectSession_finish_def
  by (auto simp: Let_def split: option.splits if_splits prod.splits)

lemma timeout_deliver_to:
  "deliver_to m i st now e = (m', es) \<Longrightarrow>
   unfinishedSessionTimeout m' = unfinishedSessionTimeout m"
  unfolding deliver_to_def by (auto split: option.splits prod.splits)

lemma reach_unfinishedSessionTimeout:
  "reach m ids ps \<Longrightarrow> unfinishedSessionTimeout m = UNFINISHED_SESSION_TIMEOUT"
proof (induction rule: reach.induct)
  case (reach_new i)
  show ?case by (simp add: new_manager_def)
next
  case (reach_create m ids ps u d now newId m' r es p)
  then show ?case using timeout_create by fastforce
next
  case (reach_destroy m ids ps i m' es p)
  then show ?case using timeout_begin by fastforce
next
  case (reach_resume m ids ps q r m' es p)
  then show ?case using timeout_resume by fastforce
next
  case (reach_unfinished m ids ps now m' es qs)
  obtain es0 n where "cleanupUnfinished_loop now (sessions m) m = (m', es0, qs, n)"
    using reach_unfinished.hyps(2)
    by (auto simp: cleanupUnfinishedSessions_def split: prod.splits)
  from cleanupUnfinished_loop_frame[OF this] reach_unfinished.IH show ?case by simp
next
  case (reach_inactive m ids ps now m' es qs)
  then show ?case
    using timeout_inactive_loop[of now "sessions m" m m' es qs]
    by (simp add: cleanupInactiveSessions_def)
next
  case (reach_start m ids ps a b r1 r2 m' resp es)
  then show ?case using timeout_start by fastforce
next
  case (reach_reconnect m ids ps i f g t m' es r)
  then show ?case using timeout_reconnect by fastforce
next
  case (reach_event m ids ps i startTime now e m' es)
  then show ?case using timeout_deliver_to by fastforce
next
  case (reach_mutate m ids ps i s s')
  then show ?case by simp
next
  case (reach_debug_cleanup m ids ps i u)
  then show ?case by simp
qed

lemma example_two_reach: "reach example_two [''C'', ''A''] []"
proof -
  have s: "reach example_started [''A''] []" using example_reach by simp
  have l: "reach example_live [''A''] []"
    unfolding example_live_def
    by (rule reach_event[OF reach_event[OF s prod.collapse[symmetric]] prod.collapse[symmetric]])
  have e: "getOrCreateSession example_live ''u2'' ''device2'' 0 ''C''
           = (example_two, ''C'', [Log ''Created new session''], None)"
    by (simp add: example_two_def example_live_value getOrCreateSession_def)
  from reach_create[OF l e] show ?thesis by simp
qed

section \<open>C1: getOrCreateSession\<close>





text \<open>
  After the call has returned, the parked \<^verbatim>\<open>destroySession\<close> of the old session goes on.
  When the teardown resolves, line 275 deletes the entry of the old session's user, which
  by then is the entry of the new session: the new session \<open>B\<close> stays registered under
  its id, but user \<open>u1\<close> has no current session any more.
\<close>

lemma superseded_teardown_unregisters_new_session:
  "map_of (userSessions example_superseded) ''u1'' = Some ''B''
   \<and> map_of (userSessions (fst (destroySession_resume example_superseded
                                   (AwaitTeardown ''A'' example_session) Resolves))) ''u1'' = None
   \<and> map_of (sessions (fst (destroySession_resume example_superseded
                               (AwaitTeardown ''A'' example_session) Resolves))) ''B''
       = Some (new_session ''u1'' ''device'' 10)"
  by (simp add: example_superseded_value destroySession_remove_def example_session_def)

section \<open>C2: the engine handle and the lifecycle state\<close>

lemma deliver_keeps:
  "client (fst (deliver i st now e s)) = client s
   \<and> reconnecting (fst (deliver i st now e s)) = reconnecting s"
proof (cases "client s")
  case None
  then show ?thesis by (simp add: deliver_def)
next
  case (Some c)
  obtain k j where c: "c = Client k j" by (cases c)
  show ?thesis
  proof (cases k)
    case Primary
    with Some c show ?thesis
      by (cases "(i, st, now, e, s)" rule: primary_listener.cases)
         (auto simp: deliver_def split: option.splits)
  next
    case Fallback
    with Some c show ?thesis
      by (cases "(i, e, s)" rule: fallback_listener.cases) (auto simp: deliver_def)
  qed
qed

lemma spec_event_attached:
  "\<not> keeps_handle_on_failure (Event now e) \<Longrightarrow>
   attached (spec_lifecycle_step (Event now e) l) = attached l
   \<and> (spec_lifecycle_step (Event now e) l = DESTROYED \<longleftrightarrow> l = DESTROYED)"
  by (cases e) (auto simp: attached_def)

lemma step_invariant:
  assumes "\<not> keeps_handle_on_failure t"
    and "client s \<noteq> None \<longleftrightarrow> attached l" and "l \<noteq> DESTROYED" and "\<not> reconnecting s"
  shows "(client (apply_transition i st t s) \<noteq> None \<longleftrightarrow> attached (spec_lifecycle_step t l))
         \<and> spec_lifecycle_step t l \<noteq> DESTROYED \<and> \<not> reconnecting (apply_transition i st t s)"
proof (cases t)
  case StartRequest
  with assms show ?thesis
    by (cases l) (auto simp: attached_def initializeClient_attach_def)
next
  case PrimaryFailed
  with assms show ?thesis by (auto simp: attached_def initializeClient_failed_def)
next
  case FallbackAttach
  with assms show ?thesis
    by (cases l) (auto simp: attached_def initializeClientFallback_attach_def)
next
  case FallbackFailed
  with assms show ?thesis by simp
next
  case (Event now e)
  with assms spec_event_attached[of now e l] deliver_keeps[of i st now e s]
  show ?thesis by simp
next
  case (Reconnect r)
  with assms show ?thesis
    by (auto simp: attached_def reconnect_start_def reconnect_reset_def reconnect_mark_def)
qed

lemma run_invariant:
  assumes "\<forall>t \<in> set ts. \<not> keeps_handle_on_failure t"
    and "client s \<noteq> None \<longleftrightarrow> attached l" and "l \<noteq> DESTROYED" and "\<not> reconnecting s"
  shows "case run i st ts (s, l) of (s', l') \<Rightarrow>
           (client s' \<noteq> None \<longleftrightarrow> attached l') \<and> l' \<noteq> DESTROYED"
  using assms
proof (induction ts arbitrary: s l)
  case Nil
  then show ?case by simp
next
  case (Cons t ts)
  from Cons.prems(1) have t: "\<not> keeps_handle_on_failure t"
    and ts: "\<forall>t \<in> set ts. \<not> keeps_handle_on_failure t" by simp_all
  from step_invariant[OF t Cons.prems(2,3,4), of i st]
  have "case run i st ts (apply_transition i st t s, spec_lifecycle_step t l) of (s', l') \<Rightarrow>
          (client s' \<noteq> None \<longleftrightarrow> attached l') \<and> l' \<noteq> DESTROYED"
    by (intro Cons.IH[OF ts]) simp_all
  then show ?case by simp
qed

text \<open>
  C2, as the code has it. Along every sequence of start requests, primary start
  failures, fallback starts, engine events other than \<^verbatim>\<open>auth_failure\<close> and \<^verbatim>\<open>error\<close>,
  and reconnections, beginning with a freshly created record: the engine handle
  \<^verbatim>\<open>session.client\<close> is non-null if and only if the lifecycle state is one of
  INITIALIZING, AUTHENTICATED, READY and DISCONNECTED, and it is null exactly in
  CREATED. A record that disconnects keeps its engine handle.
\<close>

theorem engine_handle_iff_not_created:
  assumes "\<forall>t \<in> set ts. \<not> keeps_handle_on_failure t"
    and "run i startTime ts (new_session u d now, CREATED) = (s, l)"
  shows "(client s \<noteq> None \<longleftrightarrow> l \<in> {INITIALIZING, AUTHENTICATED, READY, DISCONNECTED})
         \<and> (l = CREATED \<longleftrightarrow> client s = None)"
proof -
  have "case run i startTime ts (new_session u d now, CREATED) of (s', l') \<Rightarrow>
          (client s' \<noteq> None \<longleftrightarrow> attached l') \<and> l' \<noteq> DESTROYED"
    by (rule run_invariant[OF assms(1)]) (simp_all add: new_session_def attached_def)
  with assms(2) have "(client s \<noteq> None \<longleftrightarrow> attached l) \<and> l \<noteq> DESTROYED" by simp
  then show ?thesis by (cases l) (auto simp: attached_def)
qed

theorem engine_handle_iff_not_created_witness:
  "filter keeps_handle_on_failure (example_life @ [Reconnect Resolves]) = []
   \<and> client (fst (run ''A'' 0 (example_life @ [Reconnect Resolves])
                    (new_session ''u1'' ''device'' 0, CREATED))) = None
   \<and> snd (run ''A'' 0 (example_life @ [Reconnect Resolves])
            (new_session ''u1'' ''device'' 0, CREATED)) = CREATED"
proof -
  have h: "\<forall>t \<in> set (example_life @ [Reconnect Resolves]). \<not> keeps_handle_on_failure t"
    by (simp add: example_life_def)
  have l: "snd (run ''A'' 0 (example_life @ [Reconnect Resolves])
                 (new_session ''u1'' ''device'' 0, CREATED)) = CREATED"
    by (simp add: example_life_def)
  have f: "filter keeps_handle_on_failure (example_life @ [Reconnect Resolves]) = []"
    by (simp add: example_life_def)
  from engine_handle_iff_not_created[OF h prod.collapse[symmetric]] f l show ?thesis by simp
qed

text \<open>
  C2 as stated fails: after start, authentication, ready and a disconnect the record is
  in DISCONNECTED and still holds the engine handle of its start.
\<close>

theorem engine_handle_after_disconnect_counterexample:
  "snd (run ''A'' 0 example_life (new_session ''u1'' ''device'' 0, CREATED)) = DISCONNECTED
   \<and> client (fst (run ''A'' 0 example_life (new_session ''u1'' ''device'' 0, CREATED)))
       = Some (Client Primary ''A'')
   \<and> \<not> (client (fst (run ''A'' 0 example_life (new_session ''u1'' ''device'' 0, CREATED))) \<noteq> None
          \<longleftrightarrow> snd (run ''A'' 0 example_life (new_session ''u1'' ''device'' 0, CREATED))
                \<in> {INITIALIZING, AUTHENTICATED, READY})"
  by (simp add: example_life_def new_session_def initializeClient_attach_def deliver_def
      timeSinceReady_def)

section \<open>C3 and C4: destroySession\<close>

text \<open>
  What holds: when the engine teardown resolves, or no engine is attached, an awaited
  \<^verbatim>\<open>destroySession\<close> removes the record from the session-id map, and a second call does
  nothing.
\<close>

lemma destroySession_removes:
  assumes "map_of (sessions m) i = Some s" and "client s = None \<or> teardown = Resolves"
  shows "map_of (sessions (fst (destroySession m i teardown rm))) i = None
         \<and> destroySession (fst (destroySession m i teardown rm)) i teardown' rm'
             = (fst (destroySession m i teardown rm), [])"
proof -
  have "sessions (fst (destroySession m i teardown rm)) = AList.delete i (sessions m)"
    using assms
    by (cases "client s"; cases rm)
       (auto simp: destroySession_def destroySession_begin_def destroySession_remove_def)
  then have n: "map_of (sessions (fst (destroySession m i teardown rm))) i = None"
    by (simp add: delete_conv')
  then show ?thesis by (simp add: destroySession_def destroySession_begin_def)
qed

lemma destroySession_unknown: "map_of (sessions m) i = None \<Longrightarrow> destroySession m i t r = (m, [])"
  by (simp add: destroySession_def destroySession_begin_def)

text \<open>
  C3. The claim is that \<^verbatim>\<open>destroySession\<close> removes both map entries, deletes the directory
  and emits \<^verbatim>\<open>session_destroyed\<close> even when the engine teardown throws. In the code a
  rejected \<^verbatim>\<open>client.destroy()\<close> jumps to the outer \<^verbatim>\<open>catch\<close>: the failure is logged and not
  propagated, but the session stays in both maps, no \<^verbatim>\<open>fs.rm\<close> is attempted and nothing
  is emitted.
\<close>

theorem destroySession_teardown_rejects_keeps_session:
  "destroySession example_started ''A'' Rejects Resolves
   = (example_started,
      [ClientDestroy (Client Primary ''A''), LogError ''Error destroying session''])
   \<and> map_of (sessions example_started) ''A'' = Some example_session
   \<and> map_of (userSessions example_started) ''u1'' = Some ''A''"
  by (simp add: example_started_value destroySession_def destroySession_begin_def
      example_session_def)

text \<open>
  C4. The claim is that of two calls of \<^verbatim>\<open>destroySession\<close> on one id the second finds no
  record and does nothing. When the teardown of the first call rejects, the record is
  still registered: the second call finds it and tears the engine down again.
\<close>

theorem destroySession_twice_after_rejected_teardown:
  "snd (destroySession example_started ''A'' Rejects Resolves)
   = [ClientDestroy (Client Primary ''A''), LogError ''Error destroying session'']
   \<and> snd (destroySession (fst (destroySession example_started ''A'' Rejects Resolves)) ''A''
            Resolves Resolves)
     = [ClientDestroy (Client Primary ''A''), FsRm ''A'', Log ''Deleted session data folder'',
        Emit ''A'' ''session_destroyed'']"
  by (simp add: example_started_value destroySession_def destroySession_begin_def
      destroySession_remove_def example_session_def)

section \<open>C5 and C6: reconnectSession\<close>

lemma reconnectSession_dropped:
  assumes "map_of (sessions m) i = Some s" and "reconnecting s"
  shows "reconnectSession m i init fb t = (m, [Log ''already reconnecting, skipping''], Resolves)"
  using assms by (simp add: reconnectSession_def reconnectSession_begin_def)

text \<open>
  A call that proceeds: the start phase of lines 216-257 works on the record in which
  the flag is set and the state is reset, and what it leaves is the registered record.
\<close>

lemma reconnectSession_proceeds:
  assumes "map_of (sessions m) i = Some s" and "\<not> reconnecting s"
    and "reconnect_start (io m) i init fb
           (s\<lparr>reconnecting := True, client := None, isReady := False, isAuthenticated := False,
              qrCode := None\<rparr>) = (s3, es3, r)"
  shows "reconnectSession m i init fb t =
           (m\<lparr>sessions := AList.update i s3 (sessions m)\<rparr>,
            Log ''Attempting to reconnect session'' # reconnect_teardown t (s\<lparr>reconnecting := True\<rparr>)
            @ (if io m then [Emit i ''reconnecting''] else []) @ es3,
            r)"
  using assms
  by (simp add: reconnectSession_def reconnectSession_begin_def reconnectSession_finish_def
      reconnect_mark_def reconnect_reset_def Let_def)

lemma reconnectSession_final_record:
  assumes "map_of (sessions m) i = Some s" and "\<not> reconnecting s"
    and "reconnect_start (io m) i init fb
           (s\<lparr>reconnecting := True, client := None, isReady := False, isAuthenticated := False,
              qrCode := None\<rparr>) = (s3, es3, r)"
    and "reconnectSession m i init fb t = (m', es, r')"
  shows "map_of (sessions m') i = Some s3 \<and> r' = r \<and> userSessions m' = userSessions m
         \<and> es = Log ''Attempting to reconnect session'' # reconnect_teardown t (s\<lparr>reconnecting := True\<rparr>)
                 @ (if io m then [Emit i ''reconnecting''] else []) @ es3"
  using reconnectSession_proceeds[OF assms(1,2,3), of t] assms(4)
  by (auto simp: update_conv')




text \<open>
  Outside the outcomes above: a start routine that rejects with \<^verbatim>\<open>null\<close> or
  \<^verbatim>\<open>undefined\<close> makes line 226 (or 235) throw before the flag is cleared. The call
  rejects and the record keeps the flag as the routine left it. No start routine of the
  repository rejects so, and no caller passes a start routine at all.
\<close>

lemma reconnectSession_nullish_rejection:
  assumes "map_of (sessions m) i = Some s" and "\<not> reconnecting s"
    and "f (s\<lparr>reconnecting := True, client := None, isReady := False, isAuthenticated := False,
              qrCode := None\<rparr>) = (s3, e3, Failed Nullish)"
    and "reconnectSession m i (Some f) fb t = (m', es, r)"
  shows "map_of (sessions m') i = Some s3 \<and> r = Rejects"
proof -
  have "reconnect_start (io m) i (Some f) fb
          (s\<lparr>reconnecting := True, client := None, isReady := False, isAuthenticated := False,
             qrCode := None\<rparr>) = (s3, e3, Rejects)"
    using assms(3) by (simp add: reconnect_start_def)
  from reconnectSession_final_record[OF assms(1,2) this assms(4)] show ?thesis by simp
qed

text \<open>
  C6, as the code has it. A reconnection that is dropped changes nothing. A
  reconnection that proceeds does not preserve \<^verbatim>\<open>isAuthenticated\<close>: before any start
  routine runs it sets \<^verbatim>\<open>client\<close> to null, \<^verbatim>\<open>isReady\<close> and \<^verbatim>\<open>isAuthenticated\<close> to false and
  \<^verbatim>\<open>qrCode\<close> to null. Called without start routines, as every caller in the repository
  does, it leaves the record with exactly these values and its other fields as they
  were; a start routine is run on the record \<open>s2\<close> so reset, and where it resolves the
  registered record is the one that routine left, with the flag cleared.
\<close>

theorem reconnectSession_resets_authentication:
  assumes "map_of (sessions m) i = Some s"
    and "reconnectSession m i init fb t = (m', es, r)"
    and "s2 = s\<lparr>reconnecting := True, client := None, isReady := False, isAuthenticated := False,
                qrCode := None\<rparr>"
  shows "(reconnecting s \<longrightarrow> m' = m)
         \<and> (\<not> reconnecting s \<longrightarrow>
              (init = None \<longrightarrow>
                 map_of (sessions m') i
                   = Some (s\<lparr>client := None, isReady := False, isAuthenticated := False,
                             qrCode := None\<rparr>))
              \<and> (\<forall>f s3 e3. init = Some f \<longrightarrow> f s2 = (s3, e3, Started) \<longrightarrow>
                    map_of (sessions m') i = Some (s3\<lparr>reconnecting := False\<rparr>)))"
proof -
  have dropped: "m' = m" if "reconnecting s"
    using reconnectSession_dropped[OF assms(1) that, of init fb t] assms(2) by simp
  have proceeds:
    "(init = None \<longrightarrow>
        map_of (sessions m') i
          = Some (s\<lparr>client := None, isReady := False, isAuthenticated := False, qrCode := None\<rparr>))
     \<and> (\<forall>f s3 e3. init = Some f \<longrightarrow> f s2 = (s3, e3, Started) \<longrightarrow>
           map_of (sessions m') i = Some (s3\<lparr>reconnecting := False\<rparr>))"
    if n: "\<not> reconnecting s"
  proof -
    obtain s3 es3 r3 where st: "reconnect_start (io m) i init fb s2 = (s3, es3, r3)"
      by (cases "reconnect_start (io m) i init fb s2")
    note fin = reconnectSession_final_record[OF assms(1) n st[unfolded assms(3)] assms(2)]
    have same: "s2\<lparr>reconnecting := False\<rparr>
                = s\<lparr>client := None, isReady := False, isAuthenticated := False, qrCode := None\<rparr>"
      using n by (simp add: assms(3))
    have 1: "init = None \<longrightarrow>
               map_of (sessions m') i
                 = Some (s\<lparr>client := None, isReady := False, isAuthenticated := False,
                           qrCode := None\<rparr>)"
      using fin st same by (auto simp: reconnect_start_def)
    have 2: "\<forall>f s3 e3. init = Some f \<longrightarrow> f s2 = (s3, e3, Started) \<longrightarrow>
               map_of (sessions m') i = Some (s3\<lparr>reconnecting := False\<rparr>)"
      using fin st by (auto simp: reconnect_start_def)
    from 1 2 show ?thesis by blast
  qed
  from dropped proceeds show ?thesis by blast
qed

theorem reconnectSession_resets_authentication_witness:
  "map_of (sessions example_live) ''A'' = Some example_ready \<and> \<not> reconnecting example_ready
   \<and> isAuthenticated example_ready
   \<and> map_of (sessions (fst (reconnectSession example_live ''A'' None None Resolves))) ''A''
       = Some (example_ready\<lparr>client := None, isReady := False, isAuthenticated := False,
                              qrCode := None\<rparr>)
   \<and> map_of (sessions (fst (reconnectSession example_live ''A''
                             (Some (repo_starter (initializeClient ''A'' InitializeOk))) None
                             Resolves))) ''A''
       = Some (example_ready\<lparr>client := Some (Client Primary ''A''), isReady := False,
                              isAuthenticated := False\<rparr>)"
proof -
  let ?f = "repo_starter (initializeClient ''A'' InitializeOk)"
  let ?s2 = "example_ready\<lparr>reconnecting := True, client := None, isReady := False,
                            isAuthenticated := False, qrCode := None\<rparr>"
  have l: "map_of (sessions example_live) ''A'' = Some example_ready"
    by (simp add: example_live_value)
  have n: "\<not> reconnecting example_ready" "isAuthenticated example_ready"
    by (simp_all add: example_ready_def example_session_def)
  have f: "?f ?s2 = (?s2\<lparr>client := Some (Client Primary ''A'')\<rparr>, fst (snd (?f ?s2)), Started)"
    by (simp add: repo_starter_def initializeClient_def initializeClient_attach_def)
  from reconnectSession_resets_authentication[OF l tuple3 refl, of None None Resolves] n
  have a: "map_of (sessions (fst (reconnectSession example_live ''A'' None None Resolves))) ''A''
           = Some (example_ready\<lparr>client := None, isReady := False, isAuthenticated := False,
                                  qrCode := None\<rparr>)"
    by simp
  from reconnectSession_resets_authentication[OF l tuple3 refl, of "Some ?f" None Resolves] n f
  have b: "map_of (sessions (fst (reconnectSession example_live ''A'' (Some ?f) None Resolves))) ''A''
           = Some (?s2\<lparr>client := Some (Client Primary ''A''), reconnecting := False\<rparr>)"
    by blast
  from a b l n show ?thesis by (simp add: example_ready_def example_session_def)
qed

text \<open>
  C6 as stated fails: the record of session \<open>A\<close> is authenticated and not reconnecting,
  and after \<^verbatim>\<open>reconnectSession('A')\<close> it is no longer authenticated.
\<close>

theorem reconnectSession_preserves_authentication_counterexample:
  "map_option isAuthenticated (map_of (sessions example_live) ''A'') = Some True
   \<and> map_option reconnecting (map_of (sessions example_live) ''A'') = Some False
   \<and> map_option isAuthenticated
       (map_of (sessions (fst (reconnectSession example_live ''A'' None None Resolves))) ''A'')
     = Some False"
  by (simp add: example_live_value example_ready_def example_session_def reconnectSession_def
      reconnectSession_begin_def reconnectSession_finish_def reconnect_mark_def
      reconnect_reset_def reconnect_start_def reconnect_teardown_def Let_def)

section \<open>C7: the disconnected listener\<close>

text \<open>
  C7. The claim is that a \<^verbatim>\<open>LOGOUT\<close> disconnect less than 120000 ms after the session
  became ready raises the anti-bot signal. The listener measures from the start of
  \<^verbatim>\<open>initializeClient\<close>, not from the ready event: a session whose start began at time 0,
  which became ready at 200 s and is logged out 5 s later gets \<^verbatim>\<open>isReady\<close> false and
  keeps \<^verbatim>\<open>isAuthenticated\<close>, but no signal is raised.
\<close>

theorem disconnected_logout_5s_after_ready_no_signal:
  "deliver ''A'' 0 200000 (Ready (Some ''491700000000''))
     (fst (deliver ''A'' 0 150000 Authenticated example_session)) = (example_ready,
       [Log ''Client is ready'', Emit ''A'' ''ready''])
   \<and> (205000 :: int) - 200000 < 120000
   \<and> deliver ''A'' 0 205000 (Disconnected ''LOGOUT'') example_ready
     = (example_ready\<lparr>isReady := False\<rparr>,
        [Log ''Disconnected'', Log ''Session disconnected'', Log ''Session state'',
         Emit ''A'' ''disconnected''])
   \<and> isAuthenticated (example_ready\<lparr>isReady := False\<rparr>)
   \<and> anti_bot_log \<notin> set (snd (deliver ''A'' 0 205000 (Disconnected ''LOGOUT'') example_ready))"
  by (simp add: deliver_def example_ready_def example_session_def timeSinceReady_def
      anti_bot_log_def)

section \<open>C8: the start route\<close>

text \<open>
  What holds: a start request for a session that has an engine handle never creates an
  engine and leaves the registry as it is, and when the session is the one registered
  for its user the answer is 200 "Session already started", at a second request as at
  the first.
\<close>

lemma startSession_already_started:
  assumes "js_or param body = Some i" and "i \<noteq> []"
    and "map_of (sessions m) i = Some s" and "client s \<noteq> None"
  shows "\<exists>resp es. startSessionHandler m param body r1 r2 = (m, resp, es)
           \<and> (\<forall>c. ClientNew c \<notin> set es)
           \<and> resp = (if map_of (userSessions m) (userId s) = Some i
                      then Response 200 ''Session already started''
                      else Response 410 ''This session has been replaced by a newer session'')
           \<and> startSessionHandler (fst (startSessionHandler m param body r1 r2)) param body r1' r2'
               = (m, resp, es)"
  using assms by (simp add: startSessionHandler_def)

text \<open>
  C8. The claim is that a start request for a session with an engine handle returns
  success. In \<open>example_orphaned\<close> user \<open>u1\<close> has created \<open>A\<close>, started it, created \<open>B\<close>
  and started \<open>B\<close>; then the teardown of \<open>A\<close> has resolved and line 275 of the parked
  \<^verbatim>\<open>destroySession('A')\<close> has deleted the user's entry, which pointed to \<open>B\<close>. Session
  \<open>B\<close> is the newest session of its user and has its engine handle, and a start
  request for it is answered with 410 "This session has been replaced by a newer
  session".
\<close>

theorem startSession_newest_session_refused:
  "map_of (sessions example_orphaned) ''B'' = Some example_session_B
   \<and> client example_session_B = Some (Client Primary ''B'')
   \<and> map_of (userSessions example_orphaned) (userId example_session_B) = None
   \<and> startSessionHandler example_orphaned (Some ''B'') None InitializeOk InitializeOk
       = (example_orphaned, Response 410 ''This session has been replaced by a newer session'',
          [Log ''[START-SESSION] Ignoring start-session for old session''])"
  by (simp add: example_orphaned_value startSessionHandler_def js_or_def example_session_B_def)

section \<open>C9: the conversion cache\<close>

lemma convert_fresh_available:
  "convert_fresh c files now2 buf mt k w e = (r, c', files', es) \<Longrightarrow>
   ffmpegAvailable c' = ffmpegAvailable c"
  unfolding convert_fresh_def
  by (auto simp: Let_def split: outcome.splits engine_outcome.splits option.splits)

lemma convertAudioToMp3_available:
  "convertAudioToMp3 c files now now2 buf mt k w e = (r, c', files', es) \<Longrightarrow>
   ffmpegAvailable c' = ffmpegAvailable c \<and> (\<not> ffmpegAvailable c \<longrightarrow> c' = c)"
  unfolding convertAudioToMp3_def
  by (auto split: if_splits option.splits dest: convert_fresh_available)

lemma cleanupAudio_loop_available:
  "cleanupAudio_loop now xs (c, files) = (c', files') \<Longrightarrow> ffmpegAvailable c' = ffmpegAvailable c"
proof (induction xs arbitrary: c files)
  case Nil
  then show ?case by simp
next
  case (Cons x xs)
  obtain k e where x: "x = (k, e)" by (cases x)
  show ?case
  proof (cases "now - timestamp e > audioConversionTTL c")
    case True
    with Cons.prems x
    have "cleanupAudio_loop now xs
            (c\<lparr>audioConversionCache := AList.delete k (audioConversionCache c)\<rparr>,
             files(filePath e := None)) = (c', files')" by simp
    from Cons.IH[OF this] show ?thesis by simp
  next
    case False
    with Cons.prems x have "cleanupAudio_loop now xs (c, files) = (c', files')" by simp
    from Cons.IH[OF this] show ?thesis .
  qed
qed

lemma converter_reach_available:
  "converter_reach c \<Longrightarrow> ffmpegAvailable c \<or> audioConversionCache c = []"
proof (induction rule: converter_reach.induct)
  case (converter_new dir available)
  show ?case by (simp add: new_converter_def)
next
  case (converter_convert c files now now2 buf mt k w e r c' files' es)
  from convertAudioToMp3_available[OF converter_convert.hyps(2)] converter_convert.IH
  show ?case by auto
next
  case (converter_cleanup c files now c' files')
  show ?case
  proof (cases "ffmpegAvailable c")
    case True
    with converter_cleanup.hyps(2) show ?thesis
      by (auto simp: cleanupAudioCache_def dest: cleanupAudio_loop_available)
  next
    case False
    with converter_cleanup.IH have "audioConversionCache c = []" by simp
    with converter_cleanup.hyps(2) show ?thesis by (simp add: cleanupAudioCache_def)
  qed
qed

lemma convert_fresh_engine:
  assumes "convert_fresh c files now2 buf mt k w e = (r, c', files', es)"
  shows "(w = Resolves \<longrightarrow> FfmpegRun (inputPath c mt k) (outputPath c k) \<in> set es)
         \<and> (\<forall>b. r = Resolved b \<longrightarrow> w = Resolves \<and> e = EngineEnd (Some b))"
  using assms unfolding convert_fresh_def
  by (auto simp: Let_def split: outcome.splits engine_outcome.splits option.splits)

text \<open>
  C9. For a key with a cache entry: when the entry is younger than the TTL,
  \<^verbatim>\<open>convertAudioToMp3\<close> does not run FFmpeg, changes neither the cache nor the files, and
  resolves to the content of the entry's file; when the entry is as old as the TTL or
  older, it is not served whether or not its file exists: the call is a fresh
  conversion, which runs FFmpeg once the input is written and resolves only to what
  FFmpeg has just produced.
\<close>

theorem convertAudioToMp3_cache_hit_and_expiry:
  assumes "converter_reach c" and "map_of (audioConversionCache c) k = Some e"
    and "convertAudioToMp3 c files now now2 buf mt k w engine = (r, c', files', es)"
  shows "(now - timestamp e < audioConversionTTL c \<longrightarrow>
            (\<forall>a b. FfmpegRun a b \<notin> set es) \<and> c' = c \<and> files' = files
            \<and> (\<forall>cached. files (filePath e) = Some cached \<longrightarrow> r = Resolved cached))
         \<and> (audioConversionTTL c \<le> now - timestamp e \<longrightarrow>
              (r, c', files', es) = convert_fresh c files now2 buf mt k w engine
              \<and> (w = Resolves \<longrightarrow> FfmpegRun (inputPath c mt k) (outputPath c k) \<in> set es)
              \<and> (\<forall>b. r = Resolved b \<longrightarrow> engine = EngineEnd (Some b)))"
proof -
  from assms(2) have "audioConversionCache c \<noteq> []" by auto
  with converter_reach_available[OF assms(1)] have av: "ffmpegAvailable c" by simp
  have hit: "(\<forall>a b. FfmpegRun a b \<notin> set es) \<and> c' = c \<and> files' = files
             \<and> (\<forall>cached. files (filePath e) = Some cached \<longrightarrow> r = Resolved cached)"
    if "now - timestamp e < audioConversionTTL c"
    using that av assms(2,3) by (auto simp: convertAudioToMp3_def split: option.splits)
  have expired: "(r, c', files', es) = convert_fresh c files now2 buf mt k w engine
             \<and> (w = Resolves \<longrightarrow> FfmpegRun (inputPath c mt k) (outputPath c k) \<in> set es)
             \<and> (\<forall>b. r = Resolved b \<longrightarrow> engine = EngineEnd (Some b))"
    if "audioConversionTTL c \<le> now - timestamp e"
  proof -
    from that av assms(2,3)
    have eq: "convert_fresh c files now2 buf mt k w engine = (r, c', files', es)"
      by (simp add: convertAudioToMp3_def)
    from convert_fresh_engine[OF eq] eq show ?thesis by simp
  qed
  from hit expired show ?thesis by blast
qed

theorem convertAudioToMp3_cache_hit_and_expiry_witness:
  "converter_reach example_converter
   \<and> map_of (audioConversionCache example_converter) ''media1''
       = Some \<lparr>filePath = ''cache/output_media1.mp3'', timestamp = 1000, originalSize = 3,
               convertedSize = 2\<rparr>
   \<and> fst (convertAudioToMp3 example_converter example_files 2000 3000 [1, 2, 3] ''audio/ogg''
             ''media1'' Resolves (EngineEnd (Some [9]))) = Resolved [7, 7]
   \<and> fst (convertAudioToMp3 example_converter example_files 7201001 7202000 [1, 2, 3] ''audio/ogg''
             ''media1'' Resolves (EngineEnd (Some [9]))) = Resolved [9]"
proof -
  have "fst (snd (convertAudioToMp3 (new_converter ''cache'' True) (\<lambda>p. None) 0 1000 [1, 2, 3]
                    ''audio/ogg'' ''media1'' Resolves (EngineEnd (Some [7, 7])))) = example_converter"
    by (simp add: example_converter_def)
  with converter_convert[OF converter_new tuple4,
      of "''cache''" True "\<lambda>p. None" 0 1000 "[1, 2, 3]" "''audio/ogg''" "''media1''" Resolves
         "EngineEnd (Some [7, 7])"]
  have r: "converter_reach example_converter" by simp
  have l: "map_of (audioConversionCache example_converter) ''media1''
           = Some \<lparr>filePath = ''cache/output_media1.mp3'', timestamp = 1000, originalSize = 3,
                   convertedSize = 2\<rparr>"
    by (simp add: example_converter_value)
  have hit: "fst (convertAudioToMp3 example_converter example_files 2000 3000 [1, 2, 3]
                    ''audio/ogg'' ''media1'' Resolves (EngineEnd (Some [9]))) = Resolved [7, 7]"
    using convertAudioToMp3_cache_hit_and_expiry[where files = example_files and now = 2000
        and ?now2.0 = 3000 and buf = "[1, 2, 3]" and mt = "''audio/ogg''" and w = Resolves
        and engine = "EngineEnd (Some [9])", OF r l tuple4]
    by (simp add: example_converter_value example_files_def AUDIO_CONVERSION_TTL_def)
  have old: "fst (convertAudioToMp3 example_converter example_files 7201001 7202000 [1, 2, 3]
                    ''audio/ogg'' ''media1'' Resolves (EngineEnd (Some [9]))) = Resolved [9]"
    by (simp add: example_converter_value convertAudioToMp3_def convert_fresh_def Let_def
        AUDIO_CONVERSION_TTL_def)
  from r l hit old show ?thesis by simp
qed

section \<open>C10: the sweep of unfinished sessions\<close>

lemma cleanupUnfinished_spares:
  assumes "distinct (map fst (sessions m))"
    and "unfinishedSessionTimeout m = UNFINISHED_SESSION_TIMEOUT"
    and "cleanupUnfinishedSessions m now = (m', es, ps)"
    and "map_of (sessions m) i = Some s"
    and "isReady s \<or> isAuthenticated s \<or> now - lastActivity s \<le> 15 * 60 * 1000"
  shows "map_of (sessions m') i = Some s \<and> FsRm i \<notin> set es
         \<and> AwaitRm i \<notin> set ps \<and> (\<forall>s'. AwaitTeardown i s' \<notin> set ps)"
proof -
  obtain es0 n where l: "cleanupUnfinished_loop now (sessions m) m = (m', es0, ps, n)"
    and es: "es = es0 @ (if n > 0 then [Log ''Cleaned up unfinished session(s)''] else [])"
    using assms(3) by (auto simp: cleanupUnfinishedSessions_def split: prod.splits)
  have only: "\<forall>s'. (i, s') \<in> set (sessions m) \<longrightarrow> s' = s"
    using assms(1,4) by (metis map_of_is_SomeI option.inject)
  have "\<not> unfinished (unfinishedSessionTimeout m) now s"
    using assms(2,5) by (auto simp: unfinished_def UNFINISHED_SESSION_TIMEOUT_def)
  with only have "\<forall>s'. (i, s') \<in> set (sessions m) \<longrightarrow> \<not> unfinished (unfinishedSessionTimeout m) now s'"
    by blast
  with cleanupUnfinished_loop_frame[OF l]
  have r: "map_of (sessions m') i = map_of (sessions m) i" "FsRm i \<notin> set es0"
    "i \<notin> suspended_sid ` set ps" by simp_all
  have "AwaitRm i \<notin> set ps" using r(3) by force
  moreover have "\<forall>s'. AwaitTeardown i s' \<notin> set ps" using r(3) by force
  ultimately show ?thesis using r(1,2) assms(4) es by auto
qed

text \<open>
  C10. In every state the registry reaches, \<^verbatim>\<open>cleanupUnfinishedSessions\<close> leaves alone
  every session that is ready, or authenticated, or whose last activity is at most 15
  minutes old: its record stays registered as it is, its directory is not removed, and
  no call of \<^verbatim>\<open>destroySession\<close> for it is left parked. So the sweep destroys a session
  only if it is neither ready nor authenticated and idle for more than 15 minutes.
\<close>

theorem cleanupUnfinishedSessions_only_unfinished:
  assumes "reach m ids ps0"
    and "cleanupUnfinishedSessions m now = (m', es, ps)"
    and "map_of (sessions m) i = Some s"
    and "isReady s \<or> isAuthenticated s \<or> now - lastActivity s \<le> 15 * 60 * 1000"
  shows "map_of (sessions m') i = Some s \<and> FsRm i \<notin> set es
         \<and> AwaitRm i \<notin> set ps \<and> (\<forall>s'. AwaitTeardown i s' \<notin> set ps)"
  using cleanupUnfinished_spares[OF _ _ assms(2,3,4)]
    reach_sessions_wf[OF assms(1)] reach_unfinishedSessionTimeout[OF assms(1)]
  by (simp add: sessions_wf_def)

theorem cleanupUnfinishedSessions_only_unfinished_witness:
  "reach example_two [''C'', ''A''] []
   \<and> map_of (sessions example_two) ''A'' = Some example_ready \<and> isReady example_ready
   \<and> map_of (sessions (fst (cleanupUnfinishedSessions example_two 100000000))) ''A''
       = Some example_ready
   \<and> map_of (sessions (fst (cleanupUnfinishedSessions example_two 100000000))) ''C'' = None"
proof -
  have l: "map_of (sessions example_two) ''A'' = Some example_ready"
    by (simp add: example_two_value)
  have a: "isReady example_ready \<or> isAuthenticated example_ready
           \<or> 100000000 - lastActivity example_ready \<le> 15 * 60 * 1000"
    by (simp add: example_ready_def)
  have c: "map_of (sessions (fst (cleanupUnfinishedSessions example_two 100000000))) ''C'' = None"
    by (simp add: example_two_value cleanupUnfinishedSessions_def example_ready_def
        example_session_def new_session_def UNFINISHED_SESSION_TIMEOUT_def
        destroySession_begin_def destroySession_remove_def)
  from cleanupUnfinishedSessions_only_unfinished[OF example_two_reach tuple3 l a]
    example_two_reach l c
  show ?thesis by (simp add: example_ready_def)
qed

end
